theory Spec2Isabelle
  imports Complex_Main
begin

section \<open>Webhook signatures (webhooks.ts)\<close>

text \<open>
  \<^verbatim>\<open>createHmac('sha256', secret).update(payload).digest('hex')\<close> is Node's crypto
  library and \<^verbatim>\<open>JSON.stringify\<close> is a built-in of the language; neither is code of
  the repository. Both are parameters of the model: \<open>hmac secret message\<close> is the
  lowercase hex digest, \<open>stringify\<close> the serialisation of a payload object (of a
  payload that can be serialised: a cyclic object makes \<open>JSON.stringify\<close> throw).
  \<open>verifyWebhookSignature\<close> takes the payload as the text that was signed.
\<close>

definition verifyWebhookSignature ::
  "(string \<Rightarrow> string \<Rightarrow> string) \<Rightarrow> string \<Rightarrow> string \<Rightarrow> string \<Rightarrow> bool" where
  "verifyWebhookSignature hmac payload signature secret =
     (let hash = hmac secret payload in hash = signature)"

definition generateWebhookSignature ::
  "(string \<Rightarrow> string \<Rightarrow> string) \<Rightarrow> ('p \<Rightarrow> string) \<Rightarrow> 'p \<Rightarrow> string \<Rightarrow> string" where
  "generateWebhookSignature hmac stringify payload secret =
     (let payloadString = stringify payload in hmac secret payloadString)"

section \<open>JavaScript numbers and strings\<close>

text \<open>
  The built-ins that the collection code applies to the text of a remote command. A
  number is a real, NaN or an infinity; the value of a decimal literal is its exact
  value (the rounding to a double, and the overflow of a huge literal to an infinity, are
  not modelled). Negative zero is zero. A string is a list of 8-bit characters and white
  space is the ASCII white space.
\<close>

datatype jsnum = Num real | NaN | PosInfinity | NegInfinity

definition is_space :: "char \<Rightarrow> bool" where
  "is_space c =
     (c = CHR 0x20 \<or> c = CHR 0x09 \<or> c = CHR 0x0A \<or> c = CHR 0x0B \<or> c = CHR 0x0C
      \<or> c = CHR 0x0D)"

text \<open>The value of a character as a digit of radix \<open>R\<close>, if it is one.\<close>

definition digit_of :: "nat \<Rightarrow> char \<Rightarrow> nat option" where
  "digit_of R c =
     (let n = (of_char c :: nat);
          v = (if 48 \<le> n \<and> n \<le> 57 then Some (n - 48)
               else if 97 \<le> n \<and> n \<le> 122 then Some (n - 87)
               else if 65 \<le> n \<and> n \<le> 90 then Some (n - 55)
               else None)
      in case v of None \<Rightarrow> None | Some k \<Rightarrow> if k < R then Some k else None)"

definition is_digit :: "nat \<Rightarrow> char \<Rightarrow> bool" where
  "is_digit R c = (digit_of R c \<noteq> None)"

definition digits_value :: "nat \<Rightarrow> string \<Rightarrow> nat" where
  "digits_value R ds = foldl (\<lambda>a c. a * R + the (digit_of R c)) 0 ds"

definition js_neg :: "jsnum \<Rightarrow> jsnum" where
  "js_neg x = (case x of Num r \<Rightarrow> Num (- r) | NaN \<Rightarrow> NaN
               | PosInfinity \<Rightarrow> NegInfinity | NegInfinity \<Rightarrow> PosInfinity)"

definition scale10 :: "real \<Rightarrow> int \<Rightarrow> real" where
  "scale10 m e = (if 0 \<le> e then m * 10 ^ nat e else m / 10 ^ nat (- e))"

text \<open>
  \<open>ExponentPart\<close>: \<open>e\<close> or \<open>E\<close>, an optional sign and at least one digit. Without
  the digits the text is not an exponent and nothing is consumed.
\<close>

definition parse_exponent :: "string \<Rightarrow> int \<times> string" where
  "parse_exponent s =
     (case s of
        [] \<Rightarrow> (0, s)
      | c # r \<Rightarrow>
          if c = CHR ''e'' \<or> c = CHR ''E'' then
            (let (sgn, r') = (case r of
                                [] \<Rightarrow> (1, r)
                              | x # t \<Rightarrow> if x = CHR ''-'' then (- 1, t)
                                         else if x = CHR ''+'' then (1, t) else (1, r));
                 ds = takeWhile (is_digit 10) r'
             in if ds = [] then (0, s)
                else (sgn * int (digits_value 10 ds), dropWhile (is_digit 10) r'))
          else (0, s))"

text \<open>
  The longest prefix that is a \<open>StrUnsignedDecimalLiteral\<close>, with its value and the
  rest of the text.
\<close>

definition parse_unsigned :: "string \<Rightarrow> (jsnum \<times> string) option" where
  "parse_unsigned s =
     (if take 8 s = ''Infinity'' then Some (PosInfinity, drop 8 s)
      else
        let ip = takeWhile (is_digit 10) s; r1 = dropWhile (is_digit 10) s
        in if r1 \<noteq> [] \<and> hd r1 = CHR ''.'' then
             (let fp = takeWhile (is_digit 10) (tl r1); r3 = dropWhile (is_digit 10) (tl r1)
              in if ip = [] \<and> fp = [] then None
                 else let (e, r4) = parse_exponent r3
                      in Some (Num (scale10 (real (digits_value 10 ip)
                                     + real (digits_value 10 fp) / 10 ^ length fp) e), r4))
           else if ip = [] then None
           else let (e, r4) = parse_exponent r1
                in Some (Num (scale10 (real (digits_value 10 ip)) e), r4))"

text \<open>\<open>StrDecimalLiteral\<close>: an optional sign before the unsigned literal.\<close>

definition parse_decimal :: "string \<Rightarrow> (jsnum \<times> string) option" where
  "parse_decimal s =
     (case s of
        [] \<Rightarrow> None
      | c # r \<Rightarrow>
          if c = CHR ''+'' then parse_unsigned r
          else if c = CHR ''-'' then map_option (\<lambda>(v, rest). (js_neg v, rest)) (parse_unsigned r)
          else parse_unsigned s)"

definition parseFloat :: "string \<Rightarrow> jsnum" where
  "parseFloat s =
     (case parse_decimal (dropWhile is_space s) of None \<Rightarrow> NaN | Some (v, rest) \<Rightarrow> v)"

text \<open>\<open>parseInt\<close> without a radix: radix 16 after \<open>0x\<close>, else radix 10.\<close>

definition parseInt :: "string \<Rightarrow> jsnum" where
  "parseInt s =
     (let t = dropWhile is_space s;
          (sgn, t1) = (case t of
                         [] \<Rightarrow> (1::int, t)
                       | c # r \<Rightarrow> if c = CHR ''-'' then (- 1, r)
                                  else if c = CHR ''+'' then (1, r) else (1, t));
          (R, t2) = (if take 2 t1 = ''0x'' \<or> take 2 t1 = ''0X'' then (16::nat, drop 2 t1)
                     else (10, t1));
          z = takeWhile (is_digit R) t2
      in if z = [] then NaN else Num (real_of_int (sgn * int (digits_value R z))))"

definition trim :: "string \<Rightarrow> string" where
  "trim s = rev (dropWhile is_space (rev (dropWhile is_space s)))"

text \<open>
  \<open>Number(s)\<close>: the whole trimmed text must be a numeric literal; the empty text is 0.
\<close>

definition radix_literal :: "nat \<Rightarrow> string \<Rightarrow> jsnum" where
  "radix_literal R ds =
     (if ds \<noteq> [] \<and> dropWhile (is_digit R) ds = [] then Num (real (digits_value R ds))
      else NaN)"

definition js_Number :: "string \<Rightarrow> jsnum" where
  "js_Number s =
     (let t = trim s
      in if t = [] then Num 0
         else if take 2 t = ''0x'' \<or> take 2 t = ''0X'' then radix_literal 16 (drop 2 t)
         else if take 2 t = ''0o'' \<or> take 2 t = ''0O'' then radix_literal 8 (drop 2 t)
         else if take 2 t = ''0b'' \<or> take 2 t = ''0B'' then radix_literal 2 (drop 2 t)
         else (case parse_decimal t of
                 None \<Rightarrow> NaN
               | Some (v, rest) \<Rightarrow> if rest = [] then v else NaN))"

text \<open>\<open>x || d\<close> on numbers: NaN and 0 are falsy.\<close>

definition num_or :: "jsnum \<Rightarrow> jsnum \<Rightarrow> jsnum" where
  "num_or x d = (if x = NaN \<or> x = Num 0 then d else x)"

text \<open>\<open>x / c\<close> for a finite positive constant \<open>c\<close>.\<close>

definition js_div_const :: "jsnum \<Rightarrow> real \<Rightarrow> jsnum" where
  "js_div_const x c = (case x of Num r \<Rightarrow> Num (r / c) | other \<Rightarrow> other)"

definition js_sign :: "jsnum \<Rightarrow> int" where
  "js_sign x = (case x of Num r \<Rightarrow> (if r < 0 then - 1 else if r = 0 then 0 else 1)
                | NaN \<Rightarrow> 0 | PosInfinity \<Rightarrow> 1 | NegInfinity \<Rightarrow> - 1)"

text \<open>\<open>x * y\<close>: an infinity times zero is NaN.\<close>

definition js_mul :: "jsnum \<Rightarrow> jsnum \<Rightarrow> jsnum" where
  "js_mul x y =
     (case (x, y) of
        (Num a, Num b) \<Rightarrow> Num (a * b)
      | (NaN, _) \<Rightarrow> NaN
      | (_, NaN) \<Rightarrow> NaN
      | _ \<Rightarrow> (let sg = js_sign x * js_sign y
              in if sg = 0 then NaN else if 0 < sg then PosInfinity else NegInfinity))"

text \<open>\<open>Math.round\<close>: the nearest integer, a tie towards \<open>+\<infinity>\<close>.\<close>

definition Math_round :: "jsnum \<Rightarrow> jsnum" where
  "Math_round x = (case x of Num r \<Rightarrow> Num (real_of_int \<lfloor>r + 1 / 2\<rfloor>) | other \<Rightarrow> other)"

text \<open>\<open>Math.min(x, c)\<close> for a finite constant \<open>c\<close>.\<close>

definition Math_min :: "jsnum \<Rightarrow> real \<Rightarrow> jsnum" where
  "Math_min x c =
     (case x of Num r \<Rightarrow> Num (min r c) | NaN \<Rightarrow> NaN
      | PosInfinity \<Rightarrow> Num c | NegInfinity \<Rightarrow> NegInfinity)"

text \<open>\<open>s.split(c)\<close> for a one-character separator.\<close>

fun split_on :: "char \<Rightarrow> string \<Rightarrow> string list" where
  "split_on c [] = [[]]"
| "split_on c (x # xs) =
     (if x = c then [] # split_on c xs
      else (case split_on c xs of [] \<Rightarrow> [[x]] | p # ps \<Rightarrow> (x # p) # ps))"

text \<open>\<open>s.split(/\s+/)\<close>: the pieces between the maximal runs of white space.\<close>

function split_ws :: "string \<Rightarrow> string list" where
  "split_ws [] = [[]]"
| "split_ws (x # xs) =
     (if is_space x then [] # split_ws (dropWhile is_space xs)
      else (case split_ws xs of [] \<Rightarrow> [[x]] | p # ps \<Rightarrow> (x # p) # ps))"
  by pat_completeness auto
termination
  by (relation "measure length") (auto simp: length_dropWhile_le less_Suc_eq_le)

text \<open>\<open>parts[i]\<close>: \<open>undefined\<close> beyond the end.\<close>

definition at_index :: "'a list \<Rightarrow> nat \<Rightarrow> 'a option" where
  "at_index xs i = (if i < length xs then Some (xs ! i) else None)"

text \<open>\<open>xs.join(' ')\<close>.\<close>

fun join_space :: "string list \<Rightarrow> string" where
  "join_space [] = []"
| "join_space [x] = x"
| "join_space (x # y # ys) = x @ '' '' @ join_space (y # ys)"

text \<open>Truthiness of a string that may be absent, and \<open>x || d\<close> on it.\<close>

definition truthy_string :: "string option \<Rightarrow> bool" where
  "truthy_string x = (case x of None \<Rightarrow> False | Some s \<Rightarrow> s \<noteq> [])"

definition string_or :: "string option \<Rightarrow> string \<Rightarrow> string" where
  "string_or x d = (case x of None \<Rightarrow> d | Some s \<Rightarrow> if s = [] then d else s)"

section \<open>Thrown values and JSON values\<close>

datatype trpc_code = BAD_REQUEST | NOT_FOUND | FORBIDDEN | UNAUTHORIZED

text \<open>
  What the webhook code can throw: a \<open>TRPCError\<close> of its own, a \<open>TypeError\<close> that
  the language raises, a plain \<open>Error\<close> of db.ts or of the database driver, or a
  value that is not an \<open>Error\<close>. \<open>error_message\<close> is the expression
  \<open>error instanceof Error ? error.message : 'Unknown error'\<close> of the router.
\<close>

datatype thrown =
    TRPCError (code: trpc_code) (message: string)
  | TypeError (message: string)
  | PlainError (message: string)
  | NotAnError

definition error_message :: "thrown \<Rightarrow> string" where
  "error_message e = (case e of NotAnError \<Rightarrow> ''Unknown error'' | _ \<Rightarrow> message e)"

text \<open>
  The request of a webhook is JSON, and the \<open>data\<close> object of the request is a
  \<open>z.record(z.string(), z.any())\<close> that the dispatcher hands to a handler with
  \<open>as any\<close>: a key of the object holds any JSON value, whatever the parameter type of
  the handler declares. An object is the list of its members in the order of the text;
  of two members with the same key the later one counts.
\<close>

datatype json =
    JNull
  | JBool bool
  | JNum real
  | JStr string
  | JArr "json list"
  | JObj "(string \<times> json) list"

definition field :: "(string \<times> json) list \<Rightarrow> string \<Rightarrow> json option" where
  "field members k = map_of (rev members) k"

text \<open>
  Truthiness of the value of a key, \<open>None\<close> being \<open>undefined\<close>, and \<open>x || d\<close>.
\<close>

definition truthy :: "json option \<Rightarrow> bool" where
  "truthy x =
     (case x of
        None \<Rightarrow> False
      | Some JNull \<Rightarrow> False
      | Some (JBool b) \<Rightarrow> b
      | Some (JNum r) \<Rightarrow> r \<noteq> 0
      | Some (JStr s) \<Rightarrow> s \<noteq> []
      | Some (JArr xs) \<Rightarrow> True
      | Some (JObj members) \<Rightarrow> True)"

definition json_or :: "json option \<Rightarrow> json \<Rightarrow> json" where
  "json_or x d = (if truthy x then the x else d)"

text \<open>
  The conversion of a value to a primitive cannot be done when the value is an object
  with a key \<open>toString\<close> of its own (a JSON value is not callable, and the inherited
  \<open>valueOf\<close> returns the object), or an array that holds such an object: the
  conversion throws a \<open>TypeError\<close>.
\<close>

fun poisoned :: "json \<Rightarrow> bool" where
  "poisoned (JObj members) = (''toString'' \<in> set (map fst members))"
| "poisoned (JArr xs) = list_ex poisoned xs"
| "poisoned JNull = False"
| "poisoned (JBool b) = False"
| "poisoned (JNum r) = False"
| "poisoned (JStr s) = False"

text \<open>
  \<open>ToNumber\<close> of a value whose conversion to a primitive does not throw. An array
  converts through the text of \<open>join(',')\<close>: the empty array is the empty text, an
  array of one element is the text of the element (empty for \<open>null\<close>), and the text
  of a longer array has a comma, which is no number. An object is the text
  \<open>[object Object]\<close>.
\<close>

fun num_value :: "json \<Rightarrow> jsnum" where
  "num_value JNull = Num 0"
| "num_value (JBool b) = Num (if b then 1 else 0)"
| "num_value (JNum r) = Num r"
| "num_value (JStr s) = js_Number s"
| "num_value (JObj members) = NaN"
| "num_value (JArr []) = Num 0"
| "num_value (JArr [JNull]) = Num 0"
| "num_value (JArr [JBool b]) = NaN"
| "num_value (JArr [JNum r]) = Num r"
| "num_value (JArr [JStr s]) = js_Number s"
| "num_value (JArr [JObj members]) = NaN"
| "num_value (JArr [JArr ys]) = num_value (JArr ys)"
| "num_value (JArr (x # y # zs)) = NaN"

definition to_number :: "json option \<Rightarrow> thrown + jsnum" where
  "to_number x =
     (case x of
        None \<Rightarrow> Inr NaN
      | Some v \<Rightarrow>
          if poisoned v then Inl (TypeError ''Cannot convert object to primitive value'')
          else Inr (num_value v))"

text \<open>\<open>n < c\<close> and \<open>n > c\<close> for a constant \<open>c\<close>: false for NaN.\<close>

definition num_lt :: "jsnum \<Rightarrow> real \<Rightarrow> bool" where
  "num_lt n c = (case n of Num r \<Rightarrow> r < c | NaN \<Rightarrow> False | PosInfinity \<Rightarrow> False
                 | NegInfinity \<Rightarrow> True)"

definition num_gt :: "jsnum \<Rightarrow> real \<Rightarrow> bool" where
  "num_gt n c = (case n of Num r \<Rightarrow> c < r | NaN \<Rightarrow> False | PosInfinity \<Rightarrow> True
                 | NegInfinity \<Rightarrow> False)"

text \<open>
  \<open>x < c\<close> and \<open>x > c\<close> for the value of a key and a numeric constant: the value
  is converted to a number first.
\<close>

definition js_lt :: "json option \<Rightarrow> real \<Rightarrow> thrown + bool" where
  "js_lt x c = (case to_number x of Inl e \<Rightarrow> Inl e | Inr n \<Rightarrow> Inr (num_lt n c))"

definition js_gt :: "json option \<Rightarrow> real \<Rightarrow> thrown + bool" where
  "js_gt x c = (case to_number x of Inl e \<Rightarrow> Inl e | Inr n \<Rightarrow> Inr (num_gt n c))"

text \<open>\<open>c - n\<close> for a finite constant \<open>c\<close>.\<close>

definition js_minus :: "real \<Rightarrow> jsnum \<Rightarrow> jsnum" where
  "js_minus c n = (case n of Num r \<Rightarrow> Num (c - r) | NaN \<Rightarrow> NaN
                   | PosInfinity \<Rightarrow> NegInfinity | NegInfinity \<Rightarrow> PosInfinity)"

definition and_then :: "thrown + 'a \<Rightarrow> ('a \<Rightarrow> thrown + 'b) \<Rightarrow> thrown + 'b" where
  "and_then r f = (case r of Inl e \<Rightarrow> Inl e | Inr v \<Rightarrow> f v)"

section \<open>Persistence collaborator (db.ts)\<close>

text \<open>
  The tables of the relational schema that the webhook dispatcher touches, as lists of
  rows in insertion order. Identifiers of rows are integers, a server identifier of a
  request is a number (a real), timestamps are milliseconds as natural numbers.
  \<open>new Date()\<close> and \<open>Date.now()\<close> are the parameter \<open>now\<close> of the operation that
  reads the clock.
\<close>

datatype server_status = Online | Offline | StatusWarning | StatusError

record Server =
  server_id :: int
  server_name :: string
  hostname :: string
  ipAddress :: string
  port :: real
  os :: string
  osVersion :: string
  status :: server_status
  createdBy :: int
  lastSeen :: "nat option"
  createdAt :: nat

text \<open>\<open>InsertServer\<close> as \<open>handleCreateServer\<close> fills it.\<close>

record InsertServer =
  ins_name :: json
  ins_hostname :: json
  ins_ipAddress :: json
  ins_port :: json
  ins_os :: json
  ins_osVersion :: json
  ins_status :: server_status
  ins_createdBy :: int
  ins_lastSeen :: nat

text \<open>\<open>Partial<InsertServer>\<close> as the handlers use it: the columns they set.\<close>

record ServerUpdates =
  upd_status :: "server_status option"
  upd_lastSeen :: "nat option"

text \<open>
  The \<open>metrics\<close> object of \<open>handleMetricsUpdate\<close>, as the keys that the handler
  reads or that reach a column of the table: the eight metrics, declared \<open>number\<close>,
  and the keys \<open>id\<close> and \<open>serverId\<close>, which the spread \<open>...metrics\<close> copies into
  the row. A key that is absent reads as \<open>undefined\<close> (\<open>None\<close>).
\<close>

record metrics_data =
  cpuUsage :: "json option"
  ramUsage :: "json option"
  ramUsagePercent :: "json option"
  diskUsage :: "json option"
  diskUsagePercent :: "json option"
  networkIn :: "json option"
  networkOut :: "json option"
  activeConnections :: "json option"
  metrics_id :: "json option"
  metrics_serverId :: "json option"

text \<open>
  The object handed to the insert into \<open>serverMetrics\<close>:
  \<open>{ serverId, ...metrics, timestamp }\<close>. A key \<open>serverId\<close> of the metrics comes
  after the server identifier of the call and replaces it.
\<close>

record ServerMetric =
  metric_serverId :: json
  metric_values :: metrics_data
  metric_timestamp :: nat

datatype severity = Warning | Critical

text \<open>
  The message of an alert is one of three template strings with one interpolated number;
  the model keeps the template and the number (\<open>toFixed(1)\<close> renders it).
\<close>

datatype alert_message =
    HighCpuUsage real
  | HighMemoryUsage real
  | LowDiskSpace jsnum

record PendingAlert =
  pa_serverId :: real
  pa_severity :: severity
  pa_message :: alert_message

text \<open>
  The object handed to the insert into \<open>alerts\<close>, cast \<open>as any\<close>: these five keys
  and no others. The table has four more columns that are NOT NULL and have no default
  (\<open>alertConfigId\<close>, \<open>metricType\<close>, \<open>currentValue\<close>, \<open>threshold\<close>).
\<close>

record Alert =
  alert_serverId :: real
  alert_severity :: severity
  alert_message :: alert_message
  acknowledged :: bool
  alert_createdAt :: nat

record ApiKey =
  key_id :: int
  key_userId :: int
  key :: string
  active :: bool

record User =
  user_id :: int

text \<open>
  The \<open>data\<close> object of \<open>handleCreateServer\<close>, as the keys that the handler reads.
\<close>

record create_server_data =
  data_name :: "json option"
  data_hostname :: "json option"
  data_ipAddress :: "json option"
  data_port :: "json option"
  data_os :: "json option"
  data_osVersion :: "json option"

text \<open>
  \<open>Record<string, any>\<close>: the \<open>data\<close> object of a webhook, as the keys that the
  handlers read. The cast \<open>payload.data as any\<close> hands the same object to a handler,
  which reads the keys of its own parameter type.
\<close>

record webhook_data =
  server_fields :: create_server_data
  metric_fields :: metrics_data

definition data_of :: "(string \<times> json) list \<Rightarrow> webhook_data" where
  "data_of members =
     \<lparr>server_fields =
        \<lparr>data_name = field members ''name'', data_hostname = field members ''hostname'',
         data_ipAddress = field members ''ipAddress'', data_port = field members ''port'',
         data_os = field members ''os'', data_osVersion = field members ''osVersion''\<rparr>,
      metric_fields =
        \<lparr>cpuUsage = field members ''cpuUsage'', ramUsage = field members ''ramUsage'',
         ramUsagePercent = field members ''ramUsagePercent'',
         diskUsage = field members ''diskUsage'',
         diskUsagePercent = field members ''diskUsagePercent'',
         networkIn = field members ''networkIn'', networkOut = field members ''networkOut'',
         activeConnections = field members ''activeConnections'',
         metrics_id = field members ''id'', metrics_serverId = field members ''serverId''\<rparr>\<rparr>"

definition no_server_fields :: create_server_data where
  "no_server_fields = server_fields (data_of [])"

definition no_metric_fields :: metrics_data where
  "no_metric_fields = metric_fields (data_of [])"

text \<open>The empty object \<open>{}\<close>.\<close>

definition empty_data :: webhook_data where
  "empty_data = data_of []"

record WebhookPayload =
  payload_action :: string
  payload_serverId :: "real option"
  payload_data :: webhook_data
  payload_timestamp :: nat

text \<open>The input of the mutation of \<open>handleEvent\<close>: what its zod schema returns.\<close>

record webhook_input =
  input_action :: string
  input_serverId :: "real option"
  input_data :: "webhook_data option"
  input_apiKey :: string
  input_signature :: "string option"

text \<open>
  The objects that the handlers return; each has \<open>success: true\<close>. The message of a
  created server is the template \<open>Server ${data.name} created successfully\<close>, kept as
  the value that it interpolates.
\<close>

datatype webhook_result =
    ServerCreated Server json
  | ServerDeleted string
  | ServerStatusChanged "Server option" string
  | MetricsUpdated ServerMetric "PendingAlert list" string

datatype log_status = Success | Failed | Pending

text \<open>
  \<open>JSON.stringify\<close> of the payload and of the response: the model keeps the value
  that is serialised.
\<close>

datatype logged_payload = PayloadJson WebhookPayload | InputJson webhook_input

datatype logged_response = ResultJson webhook_result | ErrorJson string

record WebhookLog =
  log_userId :: int
  log_action :: string
  log_serverId :: "real option"
  log_payload :: logged_payload
  log_response :: logged_response
  log_status :: log_status
  log_timestamp :: nat

text \<open>
  The database behind db.ts is not code of the repository; what it does with a statement
  is a parameter of the store. \<open>available\<close> says that \<open>getDb()\<close> returns a
  database (\<open>DATABASE_URL\<close> is configured). \<open>refusal\<close> is the error with which the
  database rejects the insert of a row, if it does: a row that violates a constraint of
  the schema, a value that a column cannot hold. \<open>text_column\<close> and
  \<open>number_column\<close> are what a text column and a numeric column store for a value
  that is handed to the driver.
\<close>

datatype insert =
    ServerInsert InsertServer
  | MetricInsert ServerMetric
  | AlertInsert Alert
  | LogInsert WebhookLog

record engine =
  available :: bool
  refusal :: "insert \<Rightarrow> thrown option"
  text_column :: "json \<Rightarrow> string"
  number_column :: "json \<Rightarrow> real"

record db =
  engine :: engine
  servers :: "Server list"
  serverSeq :: int
  serverMetrics :: "ServerMetric list"
  alerts :: "Alert list"
  apiKeys :: "ApiKey list"
  users :: "User list"
  webhookLogs :: "WebhookLog list"

text \<open>
  The common start of the functions of db.ts that write:
  \<open>if (!db) throw new Error("Database not available")\<close>, then the insert, which the
  database may reject.
\<close>

definition attempt :: "db \<Rightarrow> insert \<Rightarrow> thrown option" where
  "attempt d row =
     (if \<not> available (engine d) then Some (PlainError ''Database not available'')
      else refusal (engine d) row)"

text \<open>
  \<open>createServer\<close> inserts the row and reads the newest row of the same creator back;
  the model returns the inserted row, so that the branch
  \<open>Failed to retrieve created server\<close> is not taken (and likewise for the other
  tables). \<open>serverSeq\<close> is the AUTO_INCREMENT counter.
\<close>

definition createServer :: "nat \<Rightarrow> db \<Rightarrow> InsertServer \<Rightarrow> thrown + Server \<times> db" where
  "createServer now d server =
     (case attempt d (ServerInsert server) of
        Some e \<Rightarrow> Inl e
      | None \<Rightarrow>
          (let newServer =
                 \<lparr>server_id = serverSeq d,
                  server_name = text_column (engine d) (ins_name server),
                  hostname = text_column (engine d) (ins_hostname server),
                  ipAddress = text_column (engine d) (ins_ipAddress server),
                  port = number_column (engine d) (ins_port server),
                  os = text_column (engine d) (ins_os server),
                  osVersion = text_column (engine d) (ins_osVersion server),
                  status = ins_status server, createdBy = ins_createdBy server,
                  lastSeen = Some (ins_lastSeen server), createdAt = now\<rparr>
           in Inr (newServer,
                   d\<lparr>servers := servers d @ [newServer], serverSeq := serverSeq d + 1\<rparr>)))"

text \<open>The functions of db.ts that read return \<open>undefined\<close> without a database.\<close>

definition getServerById :: "db \<Rightarrow> real \<Rightarrow> Server option" where
  "getServerById d i =
     (if \<not> available (engine d) then None
      else find (\<lambda>s. real_of_int (server_id s) = i) (servers d))"

definition apply_updates :: "ServerUpdates \<Rightarrow> Server \<Rightarrow> Server" where
  "apply_updates u s =
     s\<lparr>status := (case upd_status u of None \<Rightarrow> status s | Some v \<Rightarrow> v),
       lastSeen := (case upd_lastSeen u of None \<Rightarrow> lastSeen s | Some t \<Rightarrow> Some t)\<rparr>"

definition updateServer :: "db \<Rightarrow> real \<Rightarrow> ServerUpdates \<Rightarrow> thrown + Server option \<times> db" where
  "updateServer d i updates =
     (if \<not> available (engine d) then Inl (PlainError ''Database not available'')
      else
        let d' = d\<lparr>servers :=
                     map (\<lambda>s. if real_of_int (server_id s) = i then apply_updates updates s
                              else s) (servers d)\<rparr>
        in Inr (getServerById d' i, d'))"

definition deleteServer :: "db \<Rightarrow> real \<Rightarrow> thrown + db" where
  "deleteServer d i =
     (if \<not> available (engine d) then Inl (PlainError ''Database not available'')
      else Inr (d\<lparr>servers := filter (\<lambda>s. real_of_int (server_id s) \<noteq> i) (servers d)\<rparr>))"

definition createMetric :: "db \<Rightarrow> ServerMetric \<Rightarrow> thrown + ServerMetric \<times> db" where
  "createMetric d metric =
     (case attempt d (MetricInsert metric) of
        Some e \<Rightarrow> Inl e
      | None \<Rightarrow> Inr (metric, d\<lparr>serverMetrics := serverMetrics d @ [metric]\<rparr>))"

definition createAlert :: "db \<Rightarrow> Alert \<Rightarrow> thrown + Alert \<times> db" where
  "createAlert d alert =
     (case attempt d (AlertInsert alert) of
        Some e \<Rightarrow> Inl e
      | None \<Rightarrow> Inr (alert, d\<lparr>alerts := alerts d @ [alert]\<rparr>))"

definition getApiKeyByKey :: "db \<Rightarrow> string \<Rightarrow> ApiKey option" where
  "getApiKeyByKey d k =
     (if \<not> available (engine d) then None else find (\<lambda>a. key a = k) (apiKeys d))"

definition getUserById :: "db \<Rightarrow> int \<Rightarrow> User option" where
  "getUserById d i =
     (if \<not> available (engine d) then None else find (\<lambda>u. user_id u = i) (users d))"

definition createWebhookLog :: "db \<Rightarrow> WebhookLog \<Rightarrow> thrown + WebhookLog \<times> db" where
  "createWebhookLog d entry =
     (case attempt d (LogInsert entry) of
        Some e \<Rightarrow> Inl e
      | None \<Rightarrow> Inr (entry, d\<lparr>webhookLogs := webhookLogs d @ [entry]\<rparr>))"

section \<open>Webhook handlers (webhooks.ts)\<close>

text \<open>
  A handler returns what it throws (\<open>Inl\<close>) or its result object (\<open>Inr\<close>),
  together with the store as it is at that moment: what a handler has written before it
  throws stays written. The \<open>try/catch\<close> blocks of the handlers only rethrow.
\<close>

type_synonym 'a outcome = "(thrown + 'a) \<times> db"

definition handleCreateServer :: "nat \<Rightarrow> db \<Rightarrow> create_server_data \<Rightarrow> int \<Rightarrow> webhook_result outcome" where
  "handleCreateServer now d dat userId =
     (if \<not> truthy (data_name dat) \<or> \<not> truthy (data_hostname dat)
         \<or> \<not> truthy (data_ipAddress dat)
      then (Inl (TRPCError BAD_REQUEST ''Missing required fields: name, hostname, ipAddress''), d)
      else
        (case createServer now d
                \<lparr>ins_name = the (data_name dat),
                 ins_hostname = the (data_hostname dat),
                 ins_ipAddress = the (data_ipAddress dat),
                 ins_port = json_or (data_port dat) (JNum 22),
                 ins_os = json_or (data_os dat) (JStr ''Linux''),
                 ins_osVersion = json_or (data_osVersion dat) (JStr ''Unknown''),
                 ins_status = Online,
                 ins_createdBy = userId,
                 ins_lastSeen = now\<rparr> of
           Inl e \<Rightarrow> (Inl e, d)
         | Inr (server, d1) \<Rightarrow>
             (case createMetric d1
                     \<lparr>metric_serverId = JNum (real_of_int (server_id server)),
                      metric_values =
                        \<lparr>cpuUsage = Some (JNum 0), ramUsage = Some (JNum 0),
                         ramUsagePercent = Some (JNum 0), diskUsage = Some (JNum 0),
                         diskUsagePercent = Some (JNum 0), networkIn = Some (JNum 0),
                         networkOut = Some (JNum 0), activeConnections = Some (JNum 0),
                         metrics_id = None, metrics_serverId = None\<rparr>,
                      metric_timestamp = now\<rparr> of
                Inl e \<Rightarrow> (Inl e, d1)
              | Inr (metric, d2) \<Rightarrow>
                  if poisoned (the (data_name dat))
                  then (Inl (TypeError ''Cannot convert object to primitive value''), d2)
                  else (Inr (ServerCreated server (the (data_name dat))), d2))))"

definition handleDeleteServer :: "db \<Rightarrow> real \<Rightarrow> int \<Rightarrow> webhook_result outcome" where
  "handleDeleteServer d serverId userId =
     (case getServerById d serverId of
        None \<Rightarrow> (Inl (TRPCError NOT_FOUND ''Server not found''), d)
      | Some server \<Rightarrow>
          if createdBy server \<noteq> userId
          then (Inl (TRPCError FORBIDDEN ''You do not have permission to delete this server''), d)
          else (case deleteServer d serverId of
                  Inl e \<Rightarrow> (Inl e, d)
                | Inr d1 \<Rightarrow>
                    (Inr (ServerDeleted
                            (''Server '' @ server_name server @ '' deleted successfully'')),
                     d1)))"

datatype status_action = Start | Stop | Restart

fun action_name :: "status_action \<Rightarrow> string" where
  "action_name Start = ''start''"
| "action_name Stop = ''stop''"
| "action_name Restart = ''restart''"

definition handleServerStatusChange ::
  "nat \<Rightarrow> db \<Rightarrow> real \<Rightarrow> status_action \<Rightarrow> int \<Rightarrow> webhook_result outcome" where
  "handleServerStatusChange now d serverId act userId =
     (case getServerById d serverId of
        None \<Rightarrow> (Inl (TRPCError NOT_FOUND ''Server not found''), d)
      | Some server \<Rightarrow>
          if createdBy server \<noteq> userId
          then (Inl (TRPCError FORBIDDEN ''You do not have permission to manage this server''), d)
          else
            let newStatus = (case act of Start \<Rightarrow> Online | Stop \<Rightarrow> Offline | Restart \<Rightarrow> Online)
            in (case updateServer d serverId
                       \<lparr>upd_status = Some newStatus, upd_lastSeen = Some now\<rparr> of
                  Inl e \<Rightarrow> (Inl e, d)
                | Inr (updatedServer, d1) \<Rightarrow>
                    (Inr (ServerStatusChanged updatedServer
                            (''Server '' @ action_name act @ '' completed successfully'')),
                     d1)))"

text \<open>
  \<open>x < 0 || x > 100\<close> on one percentage, and the condition of the validation of
  \<open>handleMetricsUpdate\<close>: the three percentages in the order of the source, each
  converted to a number when its comparison is reached.
\<close>

definition outside_percent :: "json option \<Rightarrow> thrown + bool" where
  "outside_percent x =
     and_then (js_lt x 0) (\<lambda>below. if below then Inr True else js_gt x 100)"

definition invalid_metrics :: "metrics_data \<Rightarrow> thrown + bool" where
  "invalid_metrics metrics =
     and_then (outside_percent (cpuUsage metrics)) (\<lambda>cpu.
       if cpu then Inr True
       else and_then (outside_percent (ramUsagePercent metrics)) (\<lambda>ram.
         if ram then Inr True else outside_percent (diskUsagePercent metrics)))"

text \<open>
  \<open>x.toFixed(1)\<close> on the value of a key: only a number has the method, and for any
  other value the call throws a \<open>TypeError\<close>.
\<close>

definition toFixed_of :: "string \<Rightarrow> json option \<Rightarrow> thrown + real" where
  "toFixed_of name x =
     (case x of
        Some (JNum v) \<Rightarrow> Inr v
      | _ \<Rightarrow> Inl (TypeError (''metrics.'' @ name @ ''.toFixed is not a function'')))"

text \<open>
  The three threshold checks of \<open>handleMetricsUpdate\<close>, in the order of the source.
  The disk message subtracts the value from 100 first, which converts it to a number.
\<close>

definition check_alerts :: "real \<Rightarrow> metrics_data \<Rightarrow> thrown + PendingAlert list" where
  "check_alerts serverId metrics =
     and_then (js_gt (cpuUsage metrics) 90) (\<lambda>cpu_high.
     and_then (if cpu_high
               then and_then (toFixed_of ''cpuUsage'' (cpuUsage metrics)) (\<lambda>v.
                      Inr [\<lparr>pa_serverId = serverId, pa_severity = Critical,
                            pa_message = HighCpuUsage v\<rparr>])
               else Inr []) (\<lambda>cpu_alerts.
     and_then (js_gt (ramUsagePercent metrics) 90) (\<lambda>ram_high.
     and_then (if ram_high
               then and_then (toFixed_of ''ramUsagePercent'' (ramUsagePercent metrics)) (\<lambda>v.
                      Inr [\<lparr>pa_serverId = serverId, pa_severity = Critical,
                            pa_message = HighMemoryUsage v\<rparr>])
               else Inr []) (\<lambda>ram_alerts.
     and_then (js_gt (diskUsagePercent metrics) 90) (\<lambda>disk_high.
     and_then (if disk_high
               then and_then (to_number (diskUsagePercent metrics)) (\<lambda>n.
                      Inr [\<lparr>pa_serverId = serverId, pa_severity = Critical,
                            pa_message = LowDiskSpace (js_minus 100 n)\<rparr>])
               else Inr []) (\<lambda>disk_alerts.
     Inr (cpu_alerts @ ram_alerts @ disk_alerts)))))))"

text \<open>
  The loop \<open>for (const alert of alerts) await db.createAlert(...)\<close>: it stops at the
  first insert that throws.
\<close>

fun create_alerts :: "nat \<Rightarrow> db \<Rightarrow> PendingAlert list \<Rightarrow> (thrown + unit) \<times> db" where
  "create_alerts now d [] = (Inr (), d)"
| "create_alerts now d (alert # rest) =
     (case createAlert d
             \<lparr>alert_serverId = pa_serverId alert, alert_severity = pa_severity alert,
              alert_message = pa_message alert, acknowledged = False,
              alert_createdAt = now\<rparr> of
        Inl e \<Rightarrow> (Inl e, d)
      | Inr (created, d1) \<Rightarrow> create_alerts now d1 rest)"

definition metric_row :: "nat \<Rightarrow> real \<Rightarrow> metrics_data \<Rightarrow> ServerMetric" where
  "metric_row now serverId metrics =
     \<lparr>metric_serverId =
        (case metrics_serverId metrics of None \<Rightarrow> JNum serverId | Some v \<Rightarrow> v),
      metric_values = metrics, metric_timestamp = now\<rparr>"

definition handleMetricsUpdate ::
  "nat \<Rightarrow> db \<Rightarrow> real \<Rightarrow> metrics_data \<Rightarrow> int \<Rightarrow> webhook_result outcome" where
  "handleMetricsUpdate now d serverId metrics userId =
     (case getServerById d serverId of
        None \<Rightarrow> (Inl (TRPCError NOT_FOUND ''Server not found''), d)
      | Some server \<Rightarrow>
          if createdBy server \<noteq> userId
          then (Inl (TRPCError FORBIDDEN ''You do not have permission to update this server''), d)
          else
            (case invalid_metrics metrics of
               Inl e \<Rightarrow> (Inl e, d)
             | Inr True \<Rightarrow> (Inl (TRPCError BAD_REQUEST ''Invalid metrics values''), d)
             | Inr False \<Rightarrow>
                 (case createMetric d (metric_row now serverId metrics) of
                    Inl e \<Rightarrow> (Inl e, d)
                  | Inr (metric, d1) \<Rightarrow>
                      (case updateServer d1 serverId
                              \<lparr>upd_status = None, upd_lastSeen = Some now\<rparr> of
                         Inl e \<Rightarrow> (Inl e, d1)
                       | Inr (updated, d2) \<Rightarrow>
                           (case check_alerts serverId metrics of
                              Inl e \<Rightarrow> (Inl e, d2)
                            | Inr new_alerts \<Rightarrow>
                                (case create_alerts now d2 new_alerts of
                                   (Inl e, d3) \<Rightarrow> (Inl e, d3)
                                 | (Inr u, d3) \<Rightarrow>
                                     (Inr (MetricsUpdated metric new_alerts
                                             ''Metrics updated successfully''), d3)))))))"

text \<open>\<open>!payload.serverId\<close>: absent or zero.\<close>

definition falsy_id :: "real option \<Rightarrow> bool" where
  "falsy_id x = (case x of None \<Rightarrow> True | Some i \<Rightarrow> i = 0)"

text \<open>
  \<open>payload.action.replace('_server', '')\<close> on the three actions of its \<open>case\<close>
  labels.
\<close>

definition control_action :: "string \<Rightarrow> status_action" where
  "control_action a =
     (if a = ''start_server'' then Start else if a = ''stop_server'' then Stop else Restart)"

definition processWebhook :: "nat \<Rightarrow> db \<Rightarrow> WebhookPayload \<Rightarrow> int \<Rightarrow> webhook_result outcome" where
  "processWebhook now d payload userId =
     (if payload_action payload = ''create_server''
      then handleCreateServer now d (server_fields (payload_data payload)) userId
      else if payload_action payload = ''delete_server''
      then (if falsy_id (payload_serverId payload)
            then (Inl (TRPCError BAD_REQUEST ''serverId is required for delete_server action''), d)
            else handleDeleteServer d (the (payload_serverId payload)) userId)
      else if payload_action payload \<in> {''start_server'', ''stop_server'', ''restart_server''}
      then (if falsy_id (payload_serverId payload)
            then (Inl (TRPCError BAD_REQUEST ''serverId is required for server control actions''), d)
            else handleServerStatusChange now d (the (payload_serverId payload))
                   (control_action (payload_action payload)) userId)
      else if payload_action payload = ''update_metrics''
      then (if falsy_id (payload_serverId payload)
            then (Inl (TRPCError BAD_REQUEST ''serverId is required for update_metrics action''), d)
            else handleMetricsUpdate now d (the (payload_serverId payload))
                   (metric_fields (payload_data payload)) userId)
      else (Inl (TRPCError BAD_REQUEST (''Unknown action: '' @ payload_action payload)), d))"

section \<open>Webhook router (webhookRouter.handleEvent)\<close>

text \<open>
  The procedure is \<open>publicProcedure.input(z.object({...})).mutation(...)\<close>: the
  request is parsed against the schema first, and the mutation runs on what the parser
  returns. The schema wants an object with a string \<open>action\<close>, a string
  \<open>apiKey\<close>, and, when they are present, a number \<open>serverId\<close>, an object
  \<open>data\<close> (not an array) and a string \<open>signature\<close>; other keys are dropped.
\<close>

definition optional :: "json option \<Rightarrow> (json \<Rightarrow> 'a option) \<Rightarrow> 'a option option" where
  "optional x parse =
     (case x of None \<Rightarrow> Some None
      | Some v \<Rightarrow> (case parse v of None \<Rightarrow> None | Some a \<Rightarrow> Some (Some a)))"

definition as_string :: "json \<Rightarrow> string option" where
  "as_string v = (case v of JStr s \<Rightarrow> Some s | _ \<Rightarrow> None)"

definition as_number :: "json \<Rightarrow> real option" where
  "as_number v = (case v of JNum r \<Rightarrow> Some r | _ \<Rightarrow> None)"

definition as_record :: "json \<Rightarrow> webhook_data option" where
  "as_record v = (case v of JObj members \<Rightarrow> Some (data_of members) | _ \<Rightarrow> None)"

definition parse_input :: "json \<Rightarrow> webhook_input option" where
  "parse_input request =
     (case request of
        JObj members \<Rightarrow>
          (case (Option.bind (field members ''action'') as_string,
                 optional (field members ''serverId'') as_number,
                 optional (field members ''data'') as_record,
                 Option.bind (field members ''apiKey'') as_string,
                 optional (field members ''signature'') as_string) of
             (Some a, Some sid, Some dat, Some k, Some sig) \<Rightarrow>
               Some \<lparr>input_action = a, input_serverId = sid, input_data = dat,
                     input_apiKey = k, input_signature = sig\<rparr>
           | _ \<Rightarrow> None)
      | _ \<Rightarrow> None)"

text \<open>
  What the procedure throws for a request that the schema rejects. The message of the
  framework is the list of the issues of the parser, which is not modelled.
\<close>

definition input_rejected :: thrown where
  "input_rejected = TRPCError BAD_REQUEST ''Input validation failed''"

text \<open>The body of the \<open>try\<close> block up to the call of \<open>processWebhook\<close>.\<close>

definition authenticate :: "db \<Rightarrow> webhook_input \<Rightarrow> thrown + User" where
  "authenticate d inp =
     (case getApiKeyByKey d (input_apiKey inp) of
        None \<Rightarrow> Inl (TRPCError UNAUTHORIZED ''Invalid or inactive API key'')
      | Some k \<Rightarrow>
          if \<not> active k then Inl (TRPCError UNAUTHORIZED ''Invalid or inactive API key'')
          else (case getUserById d (key_userId k) of
                  None \<Rightarrow> Inl (TRPCError UNAUTHORIZED ''User not found'')
                | Some user \<Rightarrow> Inr user))"

definition make_payload :: "nat \<Rightarrow> webhook_input \<Rightarrow> WebhookPayload" where
  "make_payload now inp =
     \<lparr>payload_action = input_action inp, payload_serverId = input_serverId inp,
      payload_data = (case input_data inp of None \<Rightarrow> empty_data | Some x \<Rightarrow> x),
      payload_timestamp = now\<rparr>"

definition failed_log :: "nat \<Rightarrow> webhook_input \<Rightarrow> thrown \<Rightarrow> WebhookLog" where
  "failed_log now inp e =
     \<lparr>log_userId = 0, log_action = input_action inp, log_serverId = input_serverId inp,
      log_payload = InputJson inp, log_response = ErrorJson (error_message e),
      log_status = Failed, log_timestamp = now\<rparr>"

definition success_log :: "nat \<Rightarrow> webhook_input \<Rightarrow> User \<Rightarrow> webhook_result \<Rightarrow> WebhookLog" where
  "success_log now inp user result =
     \<lparr>log_userId = user_id user, log_action = input_action inp,
      log_serverId = input_serverId inp, log_payload = PayloadJson (make_payload now inp),
      log_response = ResultJson result, log_status = Success, log_timestamp = now\<rparr>"

text \<open>
  The \<open>catch\<close> block: it writes the failed record and rethrows. The write is not
  guarded, so an error of the write replaces the error that was caught.
\<close>

definition catch_block :: "nat \<Rightarrow> webhook_input \<Rightarrow> thrown \<Rightarrow> db \<Rightarrow> webhook_result outcome" where
  "catch_block now inp e d =
     (case createWebhookLog d (failed_log now inp e) of
        Inl e' \<Rightarrow> (Inl e', d)
      | Inr (entry, d1) \<Rightarrow> (Inl e, d1))"

text \<open>The mutation: the \<open>try\<close> block, and the \<open>catch\<close> block for whatever it throws.\<close>

definition handleEvent_mutation :: "nat \<Rightarrow> db \<Rightarrow> webhook_input \<Rightarrow> webhook_result outcome" where
  "handleEvent_mutation now d inp =
     (case authenticate d inp of
        Inl e \<Rightarrow> catch_block now inp e d
      | Inr user \<Rightarrow>
          (case processWebhook now d (make_payload now inp) (user_id user) of
             (Inl e, d1) \<Rightarrow> catch_block now inp e d1
           | (Inr result, d1) \<Rightarrow>
               (case createWebhookLog d1 (success_log now inp user result) of
                  Inl e \<Rightarrow> catch_block now inp e d1
                | Inr (entry, d2) \<Rightarrow> (Inr result, d2))))"

definition handleEvent :: "nat \<Rightarrow> db \<Rightarrow> json \<Rightarrow> webhook_result outcome" where
  "handleEvent now d request =
     (case parse_input request of
        None \<Rightarrow> (Inl input_rejected, d)
      | Some inp \<Rightarrow> handleEvent_mutation now d inp)"

section \<open>Remote session (ServerConnection)\<close>

datatype js_error = Error (error_text: string)

record ServerConnectionConfig =
  cfg_hostname :: string
  cfg_port :: nat
  cfg_username :: string
  cfg_password :: "string option"
  cfg_privateKey :: "string option"

text \<open>The \<open>connectConfig\<close> object that \<open>connect\<close> builds for the transport.\<close>

record ConnectConfig =
  cc_host :: string
  cc_port :: nat
  cc_username :: string
  cc_privateKey :: "string option"
  cc_password :: "string option"

record ServerConnection =
  config :: ServerConnectionConfig
  connected :: bool

definition new_ServerConnection :: "ServerConnectionConfig \<Rightarrow> ServerConnection" where
  "new_ServerConnection cfg = \<lparr>config = cfg, connected = False\<rparr>"

definition connect_config :: "ServerConnectionConfig \<Rightarrow> ConnectConfig" where
  "connect_config cfg =
     (let connectConfig =
            \<lparr>cc_host = cfg_hostname cfg, cc_port = cfg_port cfg,
             cc_username = cfg_username cfg, cc_privateKey = None, cc_password = None\<rparr>
      in if truthy_string (cfg_privateKey cfg)
         then connectConfig\<lparr>cc_privateKey := cfg_privateKey cfg\<rparr>
         else if truthy_string (cfg_password cfg)
         then connectConfig\<lparr>cc_password := cfg_password cfg\<rparr>
         else connectConfig)"

text \<open>
  The transport is the NodeSSH library. \<open>ssh_connect\<close> is the outcome of
  \<open>this.ssh.connect(connectConfig)\<close>: \<open>None\<close> when it resolves, \<open>Some e\<close> when it
  rejects with \<open>e\<close>. The result of \<open>connect\<close> is the thrown error (\<open>Inl\<close>) or the
  returned boolean (\<open>Inr\<close>), with the object as the call has left it.
\<close>

definition connect ::
  "(ConnectConfig \<Rightarrow> js_error option) \<Rightarrow> ServerConnection \<Rightarrow> (js_error + bool) \<times> ServerConnection" where
  "connect ssh_connect c =
     (case ssh_connect (connect_config (config c)) of
        None \<Rightarrow> (Inr True, c\<lparr>connected := True\<rparr>)
      | Some e \<Rightarrow> (Inr False, c\<lparr>connected := False\<rparr>))"

definition isConnected :: "ServerConnection \<Rightarrow> bool" where
  "isConnected c = connected c"

text \<open>
  The fixed battery of remote commands, in the order \<open>getMetrics\<close> issues them (the
  CPU percentage from /proc/stat, the memory percentage and the total memory from free,
  the disk percentage and the total disk from df, the network counters from
  /proc/net/dev, the count of established connections from netstat, then uptime, the
  name of the OS release, uname, the CPU model from lscpu and nproc), and the process
  listing of \<open>getProcesses\<close> from ps. \<open>exec cmd\<close> is the outcome of
  \<open>this.ssh.execCommand\<close> on the command: the text of stdout, or the error it
  rejects with.
\<close>

datatype command =
    CpuUsageCmd | RamPercentCmd | TotalRamCmd | DiskPercentCmd | TotalDiskCmd
  | NetStatsCmd | ConnCountCmd | UptimeCmd | OsReleaseCmd | KernelCmd | CpuModelCmd
  | NprocCmd | PsCmd

type_synonym remote = "command \<Rightarrow> js_error + string"

definition then_do :: "js_error + 'a \<Rightarrow> ('a \<Rightarrow> js_error + 'b) \<Rightarrow> js_error + 'b" where
  "then_do r f = (case r of Inl e \<Rightarrow> Inl e | Inr v \<Rightarrow> f v)"

record ServerMetricsData =
  m_cpuUsage :: jsnum
  m_ramUsage :: jsnum
  m_ramUsagePercent :: jsnum
  m_diskUsage :: jsnum
  m_diskUsagePercent :: jsnum
  m_networkIn :: jsnum
  m_networkOut :: jsnum
  m_activeConnections :: jsnum
  m_uptime :: string
  m_osVersion :: string
  m_kernelVersion :: string
  m_cpuModel :: string
  m_cpuCores :: jsnum
  m_totalRam :: jsnum
  m_totalDisk :: jsnum

text \<open>\<open>x || 0\<close> for an element of a destructured array, \<open>undefined\<close> when missing.\<close>

definition elem_or :: "jsnum option \<Rightarrow> jsnum \<Rightarrow> jsnum" where
  "elem_or x d = (case x of None \<Rightarrow> d | Some v \<Rightarrow> num_or v d)"

definition getMetrics :: "remote \<Rightarrow> ServerConnection \<Rightarrow> js_error + ServerMetricsData" where
  "getMetrics exec c =
     (if \<not> connected c then Inl (Error ''Not connected to server'')
      else
        then_do (exec CpuUsageCmd) (\<lambda>cpuResult.
        let cpuUsage = num_or (parseFloat cpuResult) (Num 0) in
        then_do (exec RamPercentCmd) (\<lambda>ramResult.
        let ramUsagePercent = num_or (parseFloat ramResult) (Num 0) in
        then_do (exec TotalRamCmd) (\<lambda>totalRamResult.
        let totalRam = num_or (parseInt totalRamResult) (Num 0);
            ramUsage = Math_round (js_mul (js_div_const ramUsagePercent 100) totalRam) in
        then_do (exec DiskPercentCmd) (\<lambda>diskResult.
        let diskUsagePercent = num_or (parseFloat diskResult) (Num 0) in
        then_do (exec TotalDiskCmd) (\<lambda>totalDiskResult.
        let totalDisk = num_or (parseInt totalDiskResult) (Num 0);
            diskUsage = Math_round (js_mul (js_div_const diskUsagePercent 100) totalDisk) in
        then_do (exec NetStatsCmd) (\<lambda>netResult.
        let nums = map js_Number (split_on (CHR '' '') netResult);
            networkIn = at_index nums 0;
            networkOut = at_index nums 1 in
        then_do (exec ConnCountCmd) (\<lambda>connResult.
        let activeConnections = num_or (parseInt connResult) (Num 0) in
        then_do (exec UptimeCmd) (\<lambda>uptimeResult.
        then_do (exec OsReleaseCmd) (\<lambda>osResult.
        then_do (exec KernelCmd) (\<lambda>kernelResult.
        then_do (exec CpuModelCmd) (\<lambda>cpuModelResult.
        then_do (exec NprocCmd) (\<lambda>cpuCoresResult.
        let cpuCores = num_or (parseInt cpuCoresResult) (Num 1) in
        Inr \<lparr>m_cpuUsage = Math_min cpuUsage 100,
             m_ramUsage = ramUsage,
             m_ramUsagePercent = Math_min ramUsagePercent 100,
             m_diskUsage = diskUsage,
             m_diskUsagePercent = Math_min diskUsagePercent 100,
             m_networkIn = elem_or networkIn (Num 0),
             m_networkOut = elem_or networkOut (Num 0),
             m_activeConnections = activeConnections,
             m_uptime = trim uptimeResult,
             m_osVersion = trim osResult,
             m_kernelVersion = trim kernelResult,
             m_cpuModel = trim cpuModelResult,
             m_cpuCores = cpuCores,
             m_totalRam = totalRam,
             m_totalDisk = totalDisk\<rparr>)))))))))))))"

datatype process_status = Running | Sleeping | Stopped | Zombie

record ProcessRecord =
  proc_id :: nat
  proc_pid :: jsnum
  proc_user :: string
  proc_cpuUsage :: jsnum
  proc_ramUsage :: jsnum
  proc_name :: string
  proc_status :: process_status
  proc_command :: string

text \<open>
  \<open>parseInt(parts[i])\<close> and \<open>parseFloat(parts[i])\<close>: a missing element is
  \<open>undefined\<close>, which both functions read as the text \<open>undefined\<close>.
\<close>

definition text_of :: "string option \<Rightarrow> string" where
  "text_of x = (case x of None \<Rightarrow> ''undefined'' | Some s \<Rightarrow> s)"

text \<open>The callback of \<open>.map((line, index) => ...)\<close> in \<open>getProcesses\<close>.\<close>

definition process_of_line :: "string \<Rightarrow> nat \<Rightarrow> ProcessRecord" where
  "process_of_line line index =
     (let parts = split_ws (trim line)
      in \<lparr>proc_id = index,
          proc_pid = num_or (parseInt (text_of (at_index parts 0))) (Num 0),
          proc_user = string_or (at_index parts 1) ''unknown'',
          proc_cpuUsage = num_or (parseFloat (text_of (at_index parts 2))) (Num 0),
          proc_ramUsage = num_or (parseFloat (text_of (at_index parts 3))) (Num 0),
          proc_name = string_or (at_index parts 4) ''unknown'',
          proc_status = Running,
          proc_command = join_space (drop 4 parts)\<rparr>)"

definition getProcesses :: "remote \<Rightarrow> ServerConnection \<Rightarrow> js_error + ProcessRecord list" where
  "getProcesses exec c =
     (if \<not> connected c then Inl (Error ''Not connected to server'')
      else (case exec PsCmd of
              Inl e \<Rightarrow> Inr []
            | Inr stdout \<Rightarrow>
                (let lines = filter (\<lambda>line. trim line \<noteq> []) (split_on (CHR 0x0A) stdout)
                 in Inr (map (\<lambda>(line, index). process_of_line line index)
                           (zip lines [0 ..< length lines])))))"

section \<open>Connection pool (ServerConnectionPool)\<close>

text \<open>
  A \<open>ServerConnection\<close> is an object that the pool and its callers share by reference:
  \<open>heap\<close> maps a reference to the state of its object and the \<open>Map\<close> of the pool
  holds references, in insertion order. \<open>disconnect\<close> is an \<open>async\<close> method with one
  \<open>await\<close>: its body runs up to \<open>await this.ssh.dispose()\<close> when it is called, and
  the assignment \<open>this.connected = false\<close> runs in a later microtask, once the awaited
  value has settled. \<open>microtasks\<close> holds the continuations of the calls that nobody has
  awaited. \<open>dispose r\<close> is the outcome of \<open>this.ssh.dispose()\<close> on the object at
  \<open>r\<close>: \<open>None\<close> when it succeeds, \<open>Some e\<close> when it fails with \<open>e\<close>.
\<close>

datatype task = ResumeDisconnect nat "js_error option"

record pool_state =
  heap :: "nat \<Rightarrow> ServerConnection"
  connections :: "(int \<times> nat) list"
  microtasks :: "task list"

text \<open>\<open>Map.prototype.set\<close>, \<open>get\<close> and \<open>delete\<close> on the entries of a \<open>Map\<close>.\<close>

fun Map_set :: "('k \<times> 'v) list \<Rightarrow> 'k \<Rightarrow> 'v \<Rightarrow> ('k \<times> 'v) list" where
  "Map_set [] k v = [(k, v)]"
| "Map_set ((k', v') # rest) k v =
     (if k' = k then (k, v) # rest else (k', v') # Map_set rest k v)"

definition Map_get :: "('k \<times> 'v) list \<Rightarrow> 'k \<Rightarrow> 'v option" where
  "Map_get entries k = map_option snd (find (\<lambda>e. fst e = k) entries)"

definition Map_delete :: "('k \<times> 'v) list \<Rightarrow> 'k \<Rightarrow> ('k \<times> 'v) list" where
  "Map_delete entries k = filter (\<lambda>e. fst e \<noteq> k) entries"

text \<open>The part of \<open>disconnect()\<close> that runs when it is called, up to its \<open>await\<close>.\<close>

definition disconnect_begin :: "(nat \<Rightarrow> js_error option) \<Rightarrow> pool_state \<Rightarrow> nat \<Rightarrow> task option" where
  "disconnect_begin dispose w r =
     (if connected (heap w r) then Some (ResumeDisconnect r (dispose r)) else None)"

text \<open>The part after the \<open>await\<close>: it throws if the disposal has failed.\<close>

fun resume :: "pool_state \<Rightarrow> task \<Rightarrow> (js_error + unit) \<times> pool_state" where
  "resume w (ResumeDisconnect r (Some e)) = (Inl e, w)"
| "resume w (ResumeDisconnect r None) =
     (Inr (), w\<lparr>heap := (heap w)(r := (heap w r)\<lparr>connected := False\<rparr>)\<rparr>)"

text \<open>\<open>await conn.disconnect()\<close>: both parts, one after the other.\<close>

definition disconnect :: "(nat \<Rightarrow> js_error option) \<Rightarrow> pool_state \<Rightarrow> nat \<Rightarrow> (js_error + unit) \<times> pool_state" where
  "disconnect dispose w r =
     (case disconnect_begin dispose w r of None \<Rightarrow> (Inr (), w) | Some t \<Rightarrow> resume w t)"

definition addConnection :: "pool_state \<Rightarrow> int \<Rightarrow> nat \<Rightarrow> pool_state" where
  "addConnection w serverId r = w\<lparr>connections := Map_set (connections w) serverId r\<rparr>"

definition getConnection :: "pool_state \<Rightarrow> int \<Rightarrow> nat option" where
  "getConnection w serverId = Map_get (connections w) serverId"

text \<open>
  \<open>removeConnection\<close> is not \<open>async\<close> and calls \<open>conn.disconnect()\<close> without
  \<open>await\<close>: the continuation of the call is left in the microtask queue.
\<close>

definition removeConnection :: "(nat \<Rightarrow> js_error option) \<Rightarrow> pool_state \<Rightarrow> int \<Rightarrow> pool_state" where
  "removeConnection dispose w serverId =
     (case getConnection w serverId of
        None \<Rightarrow> w
      | Some conn \<Rightarrow>
          w\<lparr>microtasks := microtasks w
                 @ (case disconnect_begin dispose w conn of None \<Rightarrow> [] | Some t \<Rightarrow> [t]),
            connections := Map_delete (connections w) serverId\<rparr>)"

text \<open>
  The microtask queue runs when the current synchronous code has returned. A
  continuation that throws rejects a promise that nobody holds.
\<close>

fun run_tasks :: "pool_state \<Rightarrow> task list \<Rightarrow> pool_state" where
  "run_tasks w [] = w"
| "run_tasks w (t # ts) = run_tasks (snd (resume w t)) ts"

definition run_microtasks :: "pool_state \<Rightarrow> pool_state" where
  "run_microtasks w = run_tasks (w\<lparr>microtasks := []\<rparr>) (microtasks w)"

text \<open>The loop \<open>for (const conn of conns) await conn.disconnect()\<close>.\<close>

fun disconnect_each ::
  "(nat \<Rightarrow> js_error option) \<Rightarrow> pool_state \<Rightarrow> nat list \<Rightarrow> (js_error + unit) \<times> pool_state" where
  "disconnect_each dispose w [] = (Inr (), w)"
| "disconnect_each dispose w (conn # conns) =
     (case disconnect dispose w conn of
        (Inl e, w') \<Rightarrow> (Inl e, w')
      | (Inr u, w') \<Rightarrow> disconnect_each dispose w' conns)"

definition disconnectAll :: "(nat \<Rightarrow> js_error option) \<Rightarrow> pool_state \<Rightarrow> (js_error + unit) \<times> pool_state" where
  "disconnectAll dispose w =
     (let conns = map snd (connections w)
      in case disconnect_each dispose w conns of
           (Inl e, w') \<Rightarrow> (Inl e, w')
         | (Inr u, w') \<Rightarrow> (Inr (), w'\<lparr>connections := []\<rparr>))"

section \<open>Sample data\<close>

definition sample_server :: Server where
  "sample_server =
     \<lparr>server_id = 1, server_name = ''web-1'', hostname = ''web-1.example.com'',
      ipAddress = ''10.0.0.1'', port = 22, os = ''Linux'', osVersion = ''Unknown'',
      status = Online, createdBy = 1, lastSeen = None, createdAt = 0\<rparr>"

text \<open>A database that is available and rejects no row.\<close>

definition sample_engine :: engine where
  "sample_engine =
     \<lparr>available = True, refusal = (\<lambda>row. None),
      text_column = (\<lambda>v. case v of JStr s \<Rightarrow> s | _ \<Rightarrow> []),
      number_column = (\<lambda>v. case v of JNum r \<Rightarrow> r | _ \<Rightarrow> 0)\<rparr>"

text \<open>One server, owned by user 1; users 1 and 2; one active key of user 1.\<close>

definition sample_db :: db where
  "sample_db =
     \<lparr>engine = sample_engine, servers = [sample_server], serverSeq = 2,
      serverMetrics = [], alerts = [],
      apiKeys = [\<lparr>key_id = 1, key_userId = 1, key = ''sk_test'', active = True\<rparr>],
      users = [\<lparr>user_id = 1\<rparr>, \<lparr>user_id = 2\<rparr>], webhookLogs = []\<rparr>"


text \<open>
  A database in strict mode: it rejects every row for \<open>alerts\<close> that
  \<open>handleMetricsUpdate\<close> builds, because the row has no value for the NOT NULL column
  \<open>alertConfigId\<close>, and accepts every other row.
\<close>

definition strict_engine :: engine where
  "strict_engine =
     sample_engine
       \<lparr>refusal := (\<lambda>row. case row of
                      AlertInsert a \<Rightarrow>
                        Some (PlainError ''Field 'alertConfigId' doesn't have a default value'')
                    | _ \<Rightarrow> None)\<rparr>"

definition strict_db :: db where
  "strict_db = sample_db\<lparr>engine := strict_engine\<rparr>"

definition sample_metrics :: "real \<Rightarrow> real \<Rightarrow> real \<Rightarrow> real \<Rightarrow> metrics_data" where
  "sample_metrics cpu ram_percent disk_percent ram_bytes =
     \<lparr>cpuUsage = Some (JNum cpu), ramUsage = Some (JNum ram_bytes),
      ramUsagePercent = Some (JNum ram_percent), diskUsage = Some (JNum 0),
      diskUsagePercent = Some (JNum disk_percent), networkIn = Some (JNum 0),
      networkOut = Some (JNum 0), activeConnections = Some (JNum 0),
      metrics_id = None, metrics_serverId = None\<rparr>"

text \<open>Metrics whose CPU percentage is the string \<open>95\<close>, and the request that carries them.\<close>

definition string_cpu_metrics :: metrics_data where
  "string_cpu_metrics = (sample_metrics 0 50 40 0)\<lparr>cpuUsage := Some (JStr ''95'')\<rparr>"

definition string_cpu_request :: json where
  "string_cpu_request =
     JObj [(''action'', JStr ''update_metrics''), (''serverId'', JNum 1),
           (''data'', JObj [(''cpuUsage'', JStr ''95''), (''ramUsage'', JNum 0),
                            (''ramUsagePercent'', JNum 50), (''diskUsage'', JNum 0),
                            (''diskUsagePercent'', JNum 40), (''networkIn'', JNum 0),
                            (''networkOut'', JNum 0), (''activeConnections'', JNum 0)]),
           (''apiKey'', JStr ''sk_test'')]"

text \<open>An \<open>update_metrics\<close> payload for server 1 with the given CPU percentage.\<close>

definition sample_update :: "real \<Rightarrow> WebhookPayload" where
  "sample_update cpu =
     \<lparr>payload_action = ''update_metrics'', payload_serverId = Some 1,
      payload_data = \<lparr>server_fields = no_server_fields,
                      metric_fields = sample_metrics cpu 50 40 0\<rparr>,
      payload_timestamp = 5\<rparr>"

definition sample_input :: "string \<Rightarrow> string \<Rightarrow> webhook_input" where
  "sample_input act k =
     \<lparr>input_action = act, input_serverId = Some 1, input_data = None,
      input_apiKey = k, input_signature = None\<rparr>"



definition sample_config :: "string option \<Rightarrow> string option \<Rightarrow> ServerConnectionConfig" where
  "sample_config private_key password =
     \<lparr>cfg_hostname = ''web-1.example.com'', cfg_port = 22, cfg_username = ''root'',
      cfg_password = password, cfg_privateKey = private_key\<rparr>"

text \<open>Two connected sessions, pooled under the servers 1 and 2.\<close>

definition sample_pool :: pool_state where
  "sample_pool =
     \<lparr>heap = (\<lambda>r. \<lparr>config = sample_config None (Some ''pw''), connected = True\<rparr>),
      connections = [(1, 0), (2, 1)], microtasks = []\<rparr>"

text \<open>A remote host that answers every command with the same text.\<close>

definition sample_remote :: "string \<Rightarrow> remote" where
  "sample_remote out = (\<lambda>cmd. Inr out)"

text \<open>A transport that accepts the password \<open>pw\<close> and nothing else.\<close>

definition sample_transport :: "ConnectConfig \<Rightarrow> js_error option" where
  "sample_transport cc =
     (if cc_password cc = Some ''pw'' then None else Some (Error ''authentication failed''))"

text \<open>The listing of two processes, with a blank line between them.\<close>

definition sample_ps_output :: string where
  "sample_ps_output =
     ''1 root 0.5 0.1 /sbin/init splash'' @ [CHR 0x0A] @ ''  '' @ [CHR 0x0A] @ ''77 www''"

definition sample_session :: ServerConnection where
  "sample_session = \<lparr>config = sample_config None (Some ''pw''), connected = True\<rparr>"

section \<open>The claims' vocabulary\<close>

text \<open>
  Predicates in the words of the specification, on the value of a key of the metrics.
  The value is read as the number that the language converts it to (NaN for a key that
  is absent or holds no number): above the alert threshold, within the range of a
  percentage, outside of it. \<open>convertible\<close> says that the conversion does not throw.
\<close>

definition convertible :: "json option \<Rightarrow> bool" where
  "convertible x = (case x of None \<Rightarrow> True | Some v \<Rightarrow> \<not> poisoned v)"

definition reading :: "json option \<Rightarrow> jsnum" where
  "reading x = (case x of None \<Rightarrow> NaN | Some v \<Rightarrow> num_value v)"

definition exceeds_90 :: "json option \<Rightarrow> bool" where
  "exceeds_90 x = (convertible x \<and> num_gt (reading x) 90)"

definition percent_ok :: "json option \<Rightarrow> bool" where
  "percent_ok x =
     (convertible x
      \<and> (case reading x of Num r \<Rightarrow> 0 \<le> r \<and> r \<le> 100 | NaN \<Rightarrow> True
          | PosInfinity \<Rightarrow> False | NegInfinity \<Rightarrow> False))"

definition outside_0_100 :: "json option \<Rightarrow> bool" where
  "outside_0_100 x =
     (convertible x
      \<and> (case reading x of Num r \<Rightarrow> r < 0 \<or> 100 < r | NaN \<Rightarrow> False
          | PosInfinity \<Rightarrow> True | NegInfinity \<Rightarrow> True))"

text \<open>The value of a key is a JSON number, or the key is absent.\<close>

definition number_or_absent :: "json option \<Rightarrow> bool" where
  "number_or_absent x = (case x of None \<Rightarrow> True | Some (JNum v) \<Rightarrow> True | Some other \<Rightarrow> False)"

text \<open>The row that the loop of \<open>handleMetricsUpdate\<close> inserts for a pending alert.\<close>

definition alert_row :: "nat \<Rightarrow> PendingAlert \<Rightarrow> Alert" where
  "alert_row now a =
     \<lparr>alert_serverId = pa_serverId a, alert_severity = pa_severity a,
      alert_message = pa_message a, acknowledged = False, alert_createdAt = now\<rparr>"


definition accepts_rows :: "db \<Rightarrow> bool" where
  "accepts_rows d = (available (engine d) \<and> (\<forall>row. refusal (engine d) row = None))"

text \<open>A number that is at most 100: finite and not above 100, or \<open>-Infinity\<close>.\<close>

definition at_most_100 :: "jsnum \<Rightarrow> bool" where
  "at_most_100 x = (case x of Num r \<Rightarrow> r \<le> 100 | NaN \<Rightarrow> False | PosInfinity \<Rightarrow> False
                    | NegInfinity \<Rightarrow> True)"


text \<open>Disposals: one that always succeeds, one that fails for the object at \<open>k\<close>.\<close>

definition never_failing :: "nat \<Rightarrow> js_error option" where
  "never_failing r = None"

definition failing_at :: "nat \<Rightarrow> nat \<Rightarrow> js_error option" where
  "failing_at k r = (if r = k then Some (Error ''socket closed'') else None)"

section \<open>Properties\<close>

lemmas js_parse_defs =
  parseFloat_def parseInt_def parse_decimal_def parse_unsigned_def parse_exponent_def
  is_space_def is_digit_def digit_of_def digits_value_def scale10_def js_neg_def trim_def
  num_or_def text_of_def at_index_def string_or_def

subsection \<open>Signatures\<close>

text \<open>
  Claim C3. For every payload and secret, and whatever the digest function is, verifying
  the signature that \<open>generateWebhookSignature\<close> produces for the payload, against
  the serialised payload and the same secret, returns true; verifying any other
  signature returns false, in particular the correct signature with one position
  changed to a different character.
\<close>

theorem verify_generated_signature:
  "verifyWebhookSignature hmac (stringify payload)
     (generateWebhookSignature hmac stringify payload secret) secret
   \<and> (\<forall>signature. signature \<noteq> generateWebhookSignature hmac stringify payload secret
         \<longrightarrow> \<not> verifyWebhookSignature hmac (stringify payload) signature secret)
   \<and> (\<forall>i c. i < length (generateWebhookSignature hmac stringify payload secret)
         \<and> c \<noteq> generateWebhookSignature hmac stringify payload secret ! i
         \<longrightarrow> \<not> verifyWebhookSignature hmac (stringify payload)
                 ((generateWebhookSignature hmac stringify payload secret)[i := c]) secret)"
proof -
  let ?sig = "generateWebhookSignature hmac stringify payload secret"
  have eq: "\<And>s. verifyWebhookSignature hmac (stringify payload) s secret = (?sig = s)"
    by (simp add: verifyWebhookSignature_def generateWebhookSignature_def)
  have mut: "\<And>i c. i < length ?sig \<Longrightarrow> c \<noteq> ?sig ! i \<Longrightarrow> ?sig \<noteq> ?sig[i := c]"
  proof
    fix i c assume i: "i < length ?sig" and c: "c \<noteq> ?sig ! i" and e: "?sig = ?sig[i := c]"
    from e have "?sig ! i = ?sig[i := c] ! i" by simp
    with i c show False by simp
  qed
  show ?thesis using mut by (auto simp: eq)
qed

theorem verify_generated_signature_witness:
  "verifyWebhookSignature (\<lambda>k m. k @ m) ''{}''
     (generateWebhookSignature (\<lambda>k m. k @ m) (\<lambda>p. p) ''{}'' ''ab'') ''ab''
   \<and> generateWebhookSignature (\<lambda>k m. k @ m) (\<lambda>p. p) ''{}'' ''ab'' = ''ab{}''
   \<and> \<not> verifyWebhookSignature (\<lambda>k m. k @ m) ''{}'' ''ab{]'' ''ab''"
proof -
  have g: "generateWebhookSignature (\<lambda>k m. k @ m) (\<lambda>p. p) ''{}'' ''ab'' = ''ab{}''"
    by (simp add: generateWebhookSignature_def)
  have ne: "''ab{]'' \<noteq> generateWebhookSignature (\<lambda>k m. k @ m) (\<lambda>p. p) ''{}'' ''ab''"
    by (simp add: g)
  from verify_generated_signature [of "\<lambda>k m. k @ m" "\<lambda>p. p" "''{}''" "''ab''"] ne g
  show ?thesis by blast
qed

subsection \<open>Deleting a server\<close>

text \<open>
  Claim C6. \<open>handleDeleteServer\<close> fails with NOT_FOUND when the server does not exist.
  When the server exists and its owner differs from the caller it fails with FORBIDDEN,
  the store is unchanged and the server is still there. The dispatcher hands a
  \<open>delete_server\<close> payload with a non-zero server identifier to this handler.
\<close>

theorem handleDeleteServer_guards:
  "(getServerById d serverId = None \<longrightarrow>
      handleDeleteServer d serverId userId = (Inl (TRPCError NOT_FOUND ''Server not found''), d))
   \<and> (\<forall>server. getServerById d serverId = Some server \<and> createdBy server \<noteq> userId \<longrightarrow>
         fst (handleDeleteServer d serverId userId)
           = Inl (TRPCError FORBIDDEN ''You do not have permission to delete this server'')
         \<and> snd (handleDeleteServer d serverId userId) = d
         \<and> getServerById (snd (handleDeleteServer d serverId userId)) serverId = Some server)
   \<and> (payload_action payload = ''delete_server'' \<and> payload_serverId payload = Some serverId
        \<and> serverId \<noteq> 0 \<longrightarrow>
        processWebhook now d payload userId = handleDeleteServer d serverId userId)"
  by (simp add: handleDeleteServer_def processWebhook_def falsy_id_def)

theorem handleDeleteServer_guards_witness:
  "getServerById sample_db 7 = None
   \<and> handleDeleteServer sample_db 7 2 = (Inl (TRPCError NOT_FOUND ''Server not found''), sample_db)
   \<and> getServerById sample_db 1 = Some sample_server \<and> createdBy sample_server \<noteq> 2
   \<and> fst (handleDeleteServer sample_db 1 2)
       = Inl (TRPCError FORBIDDEN ''You do not have permission to delete this server'')
   \<and> getServerById (snd (handleDeleteServer sample_db 1 2)) 1 = Some sample_server
   \<and> processWebhook 0 sample_db (make_payload 0 (sample_input ''delete_server'' ''sk_test'')) 2
       = handleDeleteServer sample_db 1 2"
proof -
  have a: "getServerById sample_db 7 = None"
    by (simp add: getServerById_def sample_db_def sample_server_def sample_engine_def)
  have b: "getServerById sample_db 1 = Some sample_server \<and> createdBy sample_server \<noteq> 2"
    by (simp add: getServerById_def sample_db_def sample_server_def sample_engine_def)
  have c: "payload_action (make_payload 0 (sample_input ''delete_server'' ''sk_test'')) = ''delete_server''
           \<and> payload_serverId (make_payload 0 (sample_input ''delete_server'' ''sk_test'')) = Some 1
           \<and> (1::real) \<noteq> 0"
    by (simp add: make_payload_def sample_input_def)
  from handleDeleteServer_guards [of sample_db 7 2] a
       handleDeleteServer_guards
         [of sample_db 1 2 "make_payload 0 (sample_input ''delete_server'' ''sk_test'')" 0] b c
  show ?thesis by blast
qed

subsection \<open>Connecting a session\<close>

text \<open>
  Claim C7. Whatever the transport answers, \<open>connect\<close> returns a boolean and never
  throws: true with the session connected when the transport accepts, false with the
  session disconnected when it fails. The configuration is unchanged. The transport is
  given the private key when the configuration holds a non-empty one, and otherwise the
  password when that is non-empty.
\<close>

theorem connect_never_throws:
  "(\<exists>b. fst (connect ssh_connect c) = Inr b
        \<and> isConnected (snd (connect ssh_connect c)) = b
        \<and> config (snd (connect ssh_connect c)) = config c
        \<and> (b \<longleftrightarrow> ssh_connect (connect_config (config c)) = None))
   \<and> (truthy_string (cfg_privateKey (config c)) \<longrightarrow>
        cc_privateKey (connect_config (config c)) = cfg_privateKey (config c)
        \<and> cc_password (connect_config (config c)) = None)
   \<and> (\<not> truthy_string (cfg_privateKey (config c)) \<and> truthy_string (cfg_password (config c)) \<longrightarrow>
        cc_password (connect_config (config c)) = cfg_password (config c)
        \<and> cc_privateKey (connect_config (config c)) = None)"
  by (simp add: connect_def isConnected_def connect_config_def Let_def split: option.splits)

theorem connect_never_throws_witness:
  "truthy_string (cfg_privateKey (sample_config (Some ''KEY'') (Some ''pw'')))
   \<and> cc_privateKey (connect_config (sample_config (Some ''KEY'') (Some ''pw''))) = Some ''KEY''
   \<and> cc_password (connect_config (sample_config (Some ''KEY'') (Some ''pw''))) = None
   \<and> fst (connect sample_transport
            (new_ServerConnection (sample_config (Some ''KEY'') (Some ''pw'')))) = Inr False
   \<and> \<not> isConnected (snd (connect sample_transport
            (new_ServerConnection (sample_config (Some ''KEY'') (Some ''pw'')))))
   \<and> \<not> truthy_string (cfg_privateKey (sample_config None (Some ''pw'')))
   \<and> truthy_string (cfg_password (sample_config None (Some ''pw'')))
   \<and> cc_password (connect_config (sample_config None (Some ''pw''))) = Some ''pw''
   \<and> fst (connect sample_transport
            (new_ServerConnection (sample_config None (Some ''pw'')))) = Inr True
   \<and> isConnected (snd (connect sample_transport
            (new_ServerConnection (sample_config None (Some ''pw'')))))"
  using connect_never_throws
          [of sample_transport "new_ServerConnection (sample_config (Some ''KEY'') (Some ''pw''))"]
        connect_never_throws
          [of sample_transport "new_ServerConnection (sample_config None (Some ''pw''))"]
  by (simp add: new_ServerConnection_def sample_config_def truthy_string_def
        sample_transport_def connect_config_def)

subsection \<open>Listing processes\<close>

text \<open>
  Claim C10. Every process record that \<open>getProcesses\<close> returns has the status
  \<open>running\<close>, whatever the remote host has printed; the statuses \<open>sleeping\<close>,
  \<open>stopped\<close> and \<open>zombie\<close> do not occur.
\<close>

theorem getProcesses_status_running:
  "getProcesses exec c = Inr ps \<Longrightarrow> p \<in> set ps \<Longrightarrow>
     proc_status p = Running \<and> proc_status p \<notin> {Sleeping, Stopped, Zombie}"
  by (auto simp: getProcesses_def process_of_line_def Let_def split: if_splits sum.splits)

theorem getProcesses_status_running_witness:
  "getProcesses (sample_remote sample_ps_output) sample_session
     = Inr [\<lparr>proc_id = 0, proc_pid = Num 1, proc_user = ''root'', proc_cpuUsage = Num (1 / 2),
             proc_ramUsage = Num (1 / 10), proc_name = ''/sbin/init'', proc_status = Running,
             proc_command = ''/sbin/init splash''\<rparr>,
            \<lparr>proc_id = 1, proc_pid = Num 77, proc_user = ''www'', proc_cpuUsage = Num 0,
             proc_ramUsage = Num 0, proc_name = ''unknown'', proc_status = Running,
             proc_command = []\<rparr>]
   \<and> proc_status \<lparr>proc_id = 1, proc_pid = Num 77, proc_user = ''www'', proc_cpuUsage = Num 0,
             proc_ramUsage = Num 0, proc_name = ''unknown'', proc_status = Running,
             proc_command = []\<rparr> = Running"
proof -
  let ?p = "\<lparr>proc_id = 1, proc_pid = Num 77, proc_user = ''www'', proc_cpuUsage = Num 0,
             proc_ramUsage = Num 0, proc_name = ''unknown'', proc_status = Running,
             proc_command = []\<rparr>"
  let ?q = "\<lparr>proc_id = 0, proc_pid = Num 1, proc_user = ''root'', proc_cpuUsage = Num (1 / 2),
             proc_ramUsage = Num (1 / 10), proc_name = ''/sbin/init'', proc_status = Running,
             proc_command = ''/sbin/init splash''\<rparr>"
  have run: "getProcesses (sample_remote sample_ps_output) sample_session = Inr [?q, ?p]"
    by (simp add: getProcesses_def sample_remote_def sample_ps_output_def sample_session_def
          process_of_line_def js_parse_defs Let_def upt_rec)
  have mem: "?p \<in> set [?q, ?p]" by simp
  from getProcesses_status_running [OF run mem] run show ?thesis by blast
qed

subsection \<open>What the operations leave alone\<close>

lemmas sample_defs =
  sample_db_def sample_engine_def sample_server_def sample_metrics_def sample_input_def

lemma create_alerts_keeps:
  "engine (snd (create_alerts now d pas)) = engine d"
  "servers (snd (create_alerts now d pas)) = servers d"
  "serverMetrics (snd (create_alerts now d pas)) = serverMetrics d"
  "webhookLogs (snd (create_alerts now d pas)) = webhookLogs d"
  by (induction pas arbitrary: d)
     (simp_all add: createAlert_def split: option.splits sum.splits prod.splits)

lemma create_alerts_accepted:
  "accepts_rows d \<Longrightarrow>
     create_alerts now d pas = (Inr (), d\<lparr>alerts := alerts d @ map (alert_row now) pas\<rparr>)"
  by (induction pas arbitrary: d)
     (simp_all add: createAlert_def attempt_def accepts_rows_def alert_row_def)




subsection \<open>The validation of the percentages\<close>

lemma outside_percent_convertible:
  "convertible x \<Longrightarrow> outside_percent x = Inr (outside_0_100 x)"
  by (auto simp: outside_percent_def and_then_def js_lt_def js_gt_def to_number_def
        outside_0_100_def convertible_def reading_def num_lt_def num_gt_def
        split: option.splits jsnum.splits)

lemma outside_percent_Inr: "outside_percent x = Inr b \<Longrightarrow> convertible x"
  by (auto simp: outside_percent_def and_then_def js_lt_def js_gt_def to_number_def
        convertible_def split: option.splits if_splits)

lemma number_or_absent_convertible: "number_or_absent x \<Longrightarrow> convertible x"
  by (auto simp: number_or_absent_def convertible_def split: option.splits json.splits)

lemma percent_ok_iff: "percent_ok x \<longleftrightarrow> convertible x \<and> \<not> outside_0_100 x"
  by (auto simp: percent_ok_def outside_0_100_def split: jsnum.splits)

lemma outside_percent_False: "outside_percent x = Inr False \<longleftrightarrow> percent_ok x"
  using outside_percent_convertible [of x] outside_percent_Inr [of x False]
  by (auto simp: percent_ok_iff)

lemma invalid_metrics_False:
  "invalid_metrics m = Inr False \<longleftrightarrow>
     percent_ok (cpuUsage m) \<and> percent_ok (ramUsagePercent m) \<and> percent_ok (diskUsagePercent m)"
proof
  assume a: "invalid_metrics m = Inr False"
  then have "outside_percent (cpuUsage m) = Inr False
             \<and> outside_percent (ramUsagePercent m) = Inr False
             \<and> outside_percent (diskUsagePercent m) = Inr False"
    by (auto simp: invalid_metrics_def and_then_def split: sum.splits if_splits)
  then show "percent_ok (cpuUsage m) \<and> percent_ok (ramUsagePercent m)
             \<and> percent_ok (diskUsagePercent m)"
    by (simp add: outside_percent_False)
next
  assume "percent_ok (cpuUsage m) \<and> percent_ok (ramUsagePercent m)
          \<and> percent_ok (diskUsagePercent m)"
  then have "outside_percent (cpuUsage m) = Inr False
             \<and> outside_percent (ramUsagePercent m) = Inr False
             \<and> outside_percent (diskUsagePercent m) = Inr False"
    by (simp add: outside_percent_False)
  then show "invalid_metrics m = Inr False"
    by (simp add: invalid_metrics_def and_then_def)
qed

lemma invalid_metrics_True:
  assumes "convertible (cpuUsage m)" "convertible (ramUsagePercent m)"
    "convertible (diskUsagePercent m)"
    and "outside_0_100 (cpuUsage m) \<or> outside_0_100 (ramUsagePercent m)
         \<or> outside_0_100 (diskUsagePercent m)"
  shows "invalid_metrics m = Inr True"
  using assms by (auto simp: invalid_metrics_def and_then_def outside_percent_convertible)

lemma handleMetricsUpdate_snapshots:
  "serverMetrics (snd (handleMetricsUpdate now d serverId m userId)) = serverMetrics d
   \<or> (invalid_metrics m = Inr False
      \<and> serverMetrics (snd (handleMetricsUpdate now d serverId m userId))
          = serverMetrics d @ [metric_row now serverId m])"
proof -
  have k: "\<And>d2 pas r d3. create_alerts now d2 pas = (r, d3)
             \<Longrightarrow> serverMetrics d3 = serverMetrics d2"
    using create_alerts_keeps(3) by (metis snd_conv)
  show ?thesis
    unfolding handleMetricsUpdate_def
    by (auto simp: createMetric_def updateServer_def Let_def dest!: k
          split: option.splits sum.splits prod.splits bool.splits)
qed

lemma handleMetricsUpdate_Inr:
  assumes "fst (handleMetricsUpdate now d serverId m userId) = Inr result"
  shows "invalid_metrics m = Inr False"
    and "serverMetrics (snd (handleMetricsUpdate now d serverId m userId))
           = serverMetrics d @ [metric_row now serverId m]"
proof -
  have k: "\<And>d2 pas r d3. create_alerts now d2 pas = (r, d3)
             \<Longrightarrow> serverMetrics d3 = serverMetrics d2"
    using create_alerts_keeps(3) by (metis snd_conv)
  from assms show "invalid_metrics m = Inr False"
    unfolding handleMetricsUpdate_def
    by (auto simp: Let_def split: option.splits sum.splits prod.splits bool.splits if_splits)
  from assms show "serverMetrics (snd (handleMetricsUpdate now d serverId m userId))
           = serverMetrics d @ [metric_row now serverId m]"
    unfolding handleMetricsUpdate_def
    by (auto simp: createMetric_def updateServer_def Let_def dest!: k
          split: option.splits sum.splits prod.splits bool.splits if_splits)
qed

subsection \<open>Rejected metrics\<close>

lemmas handler_defs =
  handleMetricsUpdate_def getServerById_def invalid_metrics_def outside_percent_def
  and_then_def js_lt_def js_gt_def to_number_def num_lt_def num_gt_def js_minus_def
  createMetric_def updateServer_def apply_updates_def check_alerts_def toFixed_of_def
  metric_row_def createAlert_def attempt_def

lemmas reading_defs =
  percent_ok_def outside_0_100_def exceeds_90_def convertible_def reading_def
  num_lt_def num_gt_def

text \<open>
  Claim C5, as amended. When one of the three percentages of the request lies outside
  [0,100], \<open>handleMetricsUpdate\<close> fails and leaves the store as it was: no snapshot,
  no refreshed \<open>lastSeen\<close>, no alert. When moreover each of the three percentages
  converts to a number without throwing (as every number, string, boolean and absent key
  does), the error is BAD_REQUEST when the server exists and the caller owns it; the
  ownership check runs first, so the error is NOT_FOUND for an absent server and FORBIDDEN
  for a caller who is not the owner. The dispatcher \<open>processWebhook\<close>, given an
  \<open>update_metrics\<close> payload with these metrics, fails as well and leaves the store as
  it was.
\<close>

theorem update_metrics_rejects_out_of_range:
  assumes "outside_0_100 (cpuUsage m) \<or> outside_0_100 (ramUsagePercent m)
           \<or> outside_0_100 (diskUsagePercent m)"
  shows "snd (handleMetricsUpdate now d serverId m userId) = d
         \<and> (\<exists>e. fst (handleMetricsUpdate now d serverId m userId) = Inl e)
         \<and> (convertible (cpuUsage m) \<and> convertible (ramUsagePercent m)
              \<and> convertible (diskUsagePercent m) \<longrightarrow>
              fst (handleMetricsUpdate now d serverId m userId)
                = Inl (case getServerById d serverId of
                         None \<Rightarrow> TRPCError NOT_FOUND ''Server not found''
                       | Some server \<Rightarrow>
                           if createdBy server = userId
                           then TRPCError BAD_REQUEST ''Invalid metrics values''
                           else TRPCError FORBIDDEN
                                  ''You do not have permission to update this server''))
         \<and> (payload_action payload = ''update_metrics''
              \<and> metric_fields (payload_data payload) = m \<longrightarrow>
              snd (processWebhook now d payload userId) = d
              \<and> (\<exists>e. fst (processWebhook now d payload userId) = Inl e))"
proof -
  from assms have inv: "invalid_metrics m \<noteq> Inr False"
    by (auto simp: invalid_metrics_False percent_ok_iff)
  have any: "\<And>i. snd (handleMetricsUpdate now d i m userId) = d
                  \<and> (\<exists>e. fst (handleMetricsUpdate now d i m userId) = Inl e)"
    using inv
    by (auto simp: handleMetricsUpdate_def split: option.splits sum.splits bool.splits)
  have exact: "convertible (cpuUsage m) \<and> convertible (ramUsagePercent m)
              \<and> convertible (diskUsagePercent m) \<longrightarrow>
              fst (handleMetricsUpdate now d serverId m userId)
                = Inl (case getServerById d serverId of
                         None \<Rightarrow> TRPCError NOT_FOUND ''Server not found''
                       | Some server \<Rightarrow>
                           if createdBy server = userId
                           then TRPCError BAD_REQUEST ''Invalid metrics values''
                           else TRPCError FORBIDDEN
                                  ''You do not have permission to update this server'')"
  proof (rule impI)
    assume c: "convertible (cpuUsage m) \<and> convertible (ramUsagePercent m)
               \<and> convertible (diskUsagePercent m)"
    with assms have "invalid_metrics m = Inr True" by (simp add: invalid_metrics_True)
    then show "fst (handleMetricsUpdate now d serverId m userId)
                = Inl (case getServerById d serverId of
                         None \<Rightarrow> TRPCError NOT_FOUND ''Server not found''
                       | Some server \<Rightarrow>
                           if createdBy server = userId
                           then TRPCError BAD_REQUEST ''Invalid metrics values''
                           else TRPCError FORBIDDEN
                                  ''You do not have permission to update this server'')"
      by (simp add: handleMetricsUpdate_def split: option.splits)
  qed
  have dispatch: "payload_action payload = ''update_metrics''
              \<and> metric_fields (payload_data payload) = m \<longrightarrow>
              snd (processWebhook now d payload userId) = d
              \<and> (\<exists>e. fst (processWebhook now d payload userId) = Inl e)"
    using any by (simp add: processWebhook_def)
  from any [of serverId] exact dispatch show ?thesis by blast
qed

theorem update_metrics_rejects_out_of_range_witness:
  "outside_0_100 (cpuUsage (sample_metrics 150 50 40 0))
   \<and> handleMetricsUpdate 5 sample_db 1 (sample_metrics 150 50 40 0) 1
       = (Inl (TRPCError BAD_REQUEST ''Invalid metrics values''), sample_db)
   \<and> payload_action (sample_update 150) = ''update_metrics''
   \<and> metric_fields (payload_data (sample_update 150)) = sample_metrics 150 50 40 0
   \<and> processWebhook 5 sample_db (sample_update 150) 1
       = (Inl (TRPCError BAD_REQUEST ''Invalid metrics values''), sample_db)"
proof -
  have c: "convertible (cpuUsage (sample_metrics 150 50 40 0))"
    "convertible (ramUsagePercent (sample_metrics 150 50 40 0))"
    "convertible (diskUsagePercent (sample_metrics 150 50 40 0))"
    by (simp_all add: convertible_def sample_defs)
  have h: "outside_0_100 (cpuUsage (sample_metrics 150 50 40 0))"
    by (simp add: reading_defs sample_defs)
  have g: "getServerById sample_db 1 = Some sample_server \<and> createdBy sample_server = 1"
    by (simp add: getServerById_def sample_defs)
  have p: "payload_action (sample_update 150) = ''update_metrics''
           \<and> metric_fields (payload_data (sample_update 150)) = sample_metrics 150 50 40 0"
    by (simp add: sample_update_def)
  have run: "fst (processWebhook 5 sample_db (sample_update 150) 1)
               = Inl (TRPCError BAD_REQUEST ''Invalid metrics values'')"
    by (simp add: processWebhook_def falsy_id_def sample_update_def handler_defs sample_defs)
  from update_metrics_rejects_out_of_range
         [of "sample_metrics 150 50 40 0" 5 sample_db 1 1 "sample_update 150"] c h g p run
  show ?thesis by (simp add: prod_eq_iff)
qed

text \<open>
  The claim as stated fails: a request with \<open>cpuUsage = 150\<close> by a caller who does
  not own the server fails with FORBIDDEN, not with a validation error.
\<close>

theorem update_metrics_non_owner_counterexample:
  "outside_0_100 (cpuUsage (sample_metrics 150 50 40 0))
   \<and> fst (handleMetricsUpdate 5 sample_db 1 (sample_metrics 150 50 40 0) 2)
       = Inl (TRPCError FORBIDDEN ''You do not have permission to update this server'')
   \<and> code (TRPCError FORBIDDEN ''You do not have permission to update this server'') \<noteq> BAD_REQUEST"
  by (simp add: reading_defs handler_defs sample_defs)

subsection \<open>Bounds of stored metrics\<close>

lemma at_most_100_clamped: "at_most_100 (Math_min (num_or x (Num 0)) 100)"
  by (cases x) (simp_all add: at_most_100_def Math_min_def num_or_def)

lemma clamped_non_numeric: "x = NaN \<Longrightarrow> Math_min (num_or x (Num 0)) 100 = Num 0"
  by (simp add: Math_min_def num_or_def)

lemma getMetrics_Inr:
  assumes "getMetrics exec c = Inr snap"
  shows "\<exists>cpuOut ramOut diskOut.
           exec CpuUsageCmd = Inr cpuOut \<and> exec RamPercentCmd = Inr ramOut
           \<and> exec DiskPercentCmd = Inr diskOut
           \<and> m_cpuUsage snap = Math_min (num_or (parseFloat cpuOut) (Num 0)) 100
           \<and> m_ramUsagePercent snap = Math_min (num_or (parseFloat ramOut) (Num 0)) 100
           \<and> m_diskUsagePercent snap = Math_min (num_or (parseFloat diskOut) (Num 0)) 100"
  using assms
  by (auto simp: getMetrics_def then_do_def Let_def split: if_splits sum.splits)

text \<open>
  Claim C4, as amended. A snapshot that \<open>handleMetricsUpdate\<close> persists is the request
  as it came, and each of its three percentages that converts to a number lies in
  [0,100]; this holds for the snapshot of a call that returns, and for the one that a call
  leaves behind when it throws after the insert: whatever the outcome, the table of the
  snapshots is as it was or has gained this one row. A snapshot that \<open>getMetrics\<close>
  returns has each of its three percentages at most 100 and never NaN, and a percentage
  whose command output is not numeric is 0. No lower bound is applied to what the remote
  host reports, and the byte and count fields are not checked on either path.
\<close>

theorem stored_percentages_bounded:
  "(fst (handleMetricsUpdate now d serverId m userId) = Inr result \<longrightarrow>
      (\<exists>row. serverMetrics (snd (handleMetricsUpdate now d serverId m userId))
                = serverMetrics d @ [row]
             \<and> metric_values row = m
             \<and> percent_ok (cpuUsage (metric_values row))
             \<and> percent_ok (ramUsagePercent (metric_values row))
             \<and> percent_ok (diskUsagePercent (metric_values row))))
   \<and> (serverMetrics (snd (handleMetricsUpdate now d serverId m userId)) = serverMetrics d
      \<or> (serverMetrics (snd (handleMetricsUpdate now d serverId m userId))
            = serverMetrics d @ [metric_row now serverId m]
          \<and> metric_values (metric_row now serverId m) = m
          \<and> percent_ok (cpuUsage m) \<and> percent_ok (ramUsagePercent m)
          \<and> percent_ok (diskUsagePercent m)))
   \<and> (getMetrics exec c = Inr snap \<longrightarrow>
        at_most_100 (m_cpuUsage snap) \<and> at_most_100 (m_ramUsagePercent snap)
        \<and> at_most_100 (m_diskUsagePercent snap)
        \<and> (\<forall>out. exec CpuUsageCmd = Inr out \<and> parseFloat out = NaN \<longrightarrow> m_cpuUsage snap = Num 0)
        \<and> (\<forall>out. exec RamPercentCmd = Inr out \<and> parseFloat out = NaN
               \<longrightarrow> m_ramUsagePercent snap = Num 0)
        \<and> (\<forall>out. exec DiskPercentCmd = Inr out \<and> parseFloat out = NaN
               \<longrightarrow> m_diskUsagePercent snap = Num 0))"
proof -
  have returned: "fst (handleMetricsUpdate now d serverId m userId) = Inr result \<longrightarrow>
      (\<exists>row. serverMetrics (snd (handleMetricsUpdate now d serverId m userId))
                = serverMetrics d @ [row]
             \<and> metric_values row = m
             \<and> percent_ok (cpuUsage (metric_values row))
             \<and> percent_ok (ramUsagePercent (metric_values row))
             \<and> percent_ok (diskUsagePercent (metric_values row)))"
  proof (rule impI)
    assume ok: "fst (handleMetricsUpdate now d serverId m userId) = Inr result"
    from handleMetricsUpdate_Inr(1) [OF ok]
    have "percent_ok (cpuUsage m) \<and> percent_ok (ramUsagePercent m)
          \<and> percent_ok (diskUsagePercent m)"
      by (simp add: invalid_metrics_False)
    with handleMetricsUpdate_Inr(2) [OF ok]
    show "\<exists>row. serverMetrics (snd (handleMetricsUpdate now d serverId m userId))
                  = serverMetrics d @ [row]
               \<and> metric_values row = m
               \<and> percent_ok (cpuUsage (metric_values row))
               \<and> percent_ok (ramUsagePercent (metric_values row))
               \<and> percent_ok (diskUsagePercent (metric_values row))"
      by (simp add: metric_row_def)
  qed
  have any: "serverMetrics (snd (handleMetricsUpdate now d serverId m userId)) = serverMetrics d
      \<or> (serverMetrics (snd (handleMetricsUpdate now d serverId m userId))
            = serverMetrics d @ [metric_row now serverId m]
          \<and> metric_values (metric_row now serverId m) = m
          \<and> percent_ok (cpuUsage m) \<and> percent_ok (ramUsagePercent m)
          \<and> percent_ok (diskUsagePercent m))"
    using handleMetricsUpdate_snapshots [of now d serverId m userId]
    by (auto simp: invalid_metrics_False metric_row_def)
  have collected: "getMetrics exec c = Inr snap \<longrightarrow>
        at_most_100 (m_cpuUsage snap) \<and> at_most_100 (m_ramUsagePercent snap)
        \<and> at_most_100 (m_diskUsagePercent snap)
        \<and> (\<forall>out. exec CpuUsageCmd = Inr out \<and> parseFloat out = NaN \<longrightarrow> m_cpuUsage snap = Num 0)
        \<and> (\<forall>out. exec RamPercentCmd = Inr out \<and> parseFloat out = NaN
               \<longrightarrow> m_ramUsagePercent snap = Num 0)
        \<and> (\<forall>out. exec DiskPercentCmd = Inr out \<and> parseFloat out = NaN
               \<longrightarrow> m_diskUsagePercent snap = Num 0)"
  proof (rule impI)
    assume g: "getMetrics exec c = Inr snap"
    from getMetrics_Inr [OF g] obtain cpuOut ramOut diskOut where
      e: "exec CpuUsageCmd = Inr cpuOut" "exec RamPercentCmd = Inr ramOut"
         "exec DiskPercentCmd = Inr diskOut"
      and v: "m_cpuUsage snap = Math_min (num_or (parseFloat cpuOut) (Num 0)) 100"
         "m_ramUsagePercent snap = Math_min (num_or (parseFloat ramOut) (Num 0)) 100"
         "m_diskUsagePercent snap = Math_min (num_or (parseFloat diskOut) (Num 0)) 100"
      by blast
    have b1: "at_most_100 (m_cpuUsage snap)" by (simp add: v at_most_100_clamped)
    have b2: "at_most_100 (m_ramUsagePercent snap)" by (simp add: v at_most_100_clamped)
    have b3: "at_most_100 (m_diskUsagePercent snap)" by (simp add: v at_most_100_clamped)
    have n1: "\<forall>out. exec CpuUsageCmd = Inr out \<and> parseFloat out = NaN
                \<longrightarrow> m_cpuUsage snap = Num 0"
      using e v by (simp add: clamped_non_numeric)
    have n2: "\<forall>out. exec RamPercentCmd = Inr out \<and> parseFloat out = NaN
                \<longrightarrow> m_ramUsagePercent snap = Num 0"
      using e v by (simp add: clamped_non_numeric)
    have n3: "\<forall>out. exec DiskPercentCmd = Inr out \<and> parseFloat out = NaN
                \<longrightarrow> m_diskUsagePercent snap = Num 0"
      using e v by (simp add: clamped_non_numeric)
    from b1 b2 b3 n1 n2 n3
    show "at_most_100 (m_cpuUsage snap) \<and> at_most_100 (m_ramUsagePercent snap)
        \<and> at_most_100 (m_diskUsagePercent snap)
        \<and> (\<forall>out. exec CpuUsageCmd = Inr out \<and> parseFloat out = NaN \<longrightarrow> m_cpuUsage snap = Num 0)
        \<and> (\<forall>out. exec RamPercentCmd = Inr out \<and> parseFloat out = NaN
               \<longrightarrow> m_ramUsagePercent snap = Num 0)
        \<and> (\<forall>out. exec DiskPercentCmd = Inr out \<and> parseFloat out = NaN
               \<longrightarrow> m_diskUsagePercent snap = Num 0)"
      by blast
  qed
  from returned any collected show ?thesis by blast
qed

lemmas js_num_defs =
  js_Number_def radix_literal_def js_div_const_def js_mul_def js_sign_def Math_round_def
  Math_min_def elem_or_def

lemma run_150: "map_sum id (\<lambda>s. (m_cpuUsage s, m_ramUsagePercent s, m_diskUsagePercent s))
       (getMetrics (sample_remote ''150.3'') sample_session) = Inr (Num 100, Num 100, Num 100)"
  by (simp add: getMetrics_def then_do_def sample_remote_def sample_session_def Let_def
        js_parse_defs js_num_defs)

lemma run_na: "map_sum id (\<lambda>s. (m_cpuUsage s, m_ramUsagePercent s, m_diskUsagePercent s))
       (getMetrics (sample_remote ''n/a'') sample_session) = Inr (Num 0, Num 0, Num 0)"
  by (simp add: getMetrics_def then_do_def sample_remote_def sample_session_def Let_def
        js_parse_defs js_num_defs)

lemma run_neg: "map_sum id (\<lambda>s. (m_cpuUsage s, m_ramUsage s, m_networkIn s, m_activeConnections s))
       (getMetrics (sample_remote ''-5'') sample_session) = Inr (Num (- 5), Num 0, Num (- 5), Num (- 5))"
  by (simp add: getMetrics_def then_do_def sample_remote_def sample_session_def Let_def
        js_parse_defs js_num_defs)

theorem stored_percentages_bounded_witness:
  "fst (handleMetricsUpdate 5 sample_db 1 (sample_metrics 50 60 70 0) 1)
     = Inr (MetricsUpdated
              \<lparr>metric_serverId = JNum 1, metric_values = sample_metrics 50 60 70 0,
               metric_timestamp = 5\<rparr> [] ''Metrics updated successfully'')
   \<and> serverMetrics (snd (handleMetricsUpdate 5 sample_db 1 (sample_metrics 50 60 70 0) 1))
       = [\<lparr>metric_serverId = JNum 1, metric_values = sample_metrics 50 60 70 0,
           metric_timestamp = 5\<rparr>]
   \<and> percent_ok (cpuUsage (sample_metrics 50 60 70 0))
   \<and> map_sum id (\<lambda>s. (m_cpuUsage s, m_ramUsagePercent s, m_diskUsagePercent s))
        (getMetrics (sample_remote ''150.3'') sample_session) = Inr (Num 100, Num 100, Num 100)
   \<and> at_most_100 (Num 100)
   \<and> parseFloat ''n/a'' = NaN
   \<and> map_sum id (\<lambda>s. (m_cpuUsage s, m_ramUsagePercent s, m_diskUsagePercent s))
        (getMetrics (sample_remote ''n/a'') sample_session) = Inr (Num 0, Num 0, Num 0)"
proof -
  let ?row = "\<lparr>metric_serverId = JNum 1, metric_values = sample_metrics 50 60 70 0,
               metric_timestamp = 5\<rparr>"
  have ok: "fst (handleMetricsUpdate 5 sample_db 1 (sample_metrics 50 60 70 0) 1)
              = Inr (MetricsUpdated ?row [] ''Metrics updated successfully'')"
    by (simp add: handler_defs sample_defs)
  have stored: "serverMetrics (snd (handleMetricsUpdate 5 sample_db 1 (sample_metrics 50 60 70 0) 1))
                  = [?row]"
    by (simp add: handler_defs sample_defs)
  have nan: "parseFloat ''n/a'' = NaN" by (simp add: js_parse_defs)
  have hi: "at_most_100 (Num 100)" by (simp add: at_most_100_def)
  obtain snap where snap: "getMetrics (sample_remote ''150.3'') sample_session = Inr snap"
    using run_150 by (cases "getMetrics (sample_remote ''150.3'') sample_session") auto
  from stored_percentages_bounded
         [of 5 sample_db 1 "sample_metrics 50 60 70 0" 1
             "MetricsUpdated ?row [] ''Metrics updated successfully''"
             "sample_remote ''150.3''" sample_session snap]
       ok snap
  have "percent_ok (cpuUsage (sample_metrics 50 60 70 0))" by auto
  with ok stored nan hi run_150 run_na show ?thesis by simp
qed

text \<open>
  The claim as stated fails on both paths: a metrics update with \<open>ramUsage = -1\<close> and
  valid percentages is stored as it is, and \<open>getMetrics\<close> on a host that prints
  \<open>-5\<close> returns a CPU percentage, a network counter and a connection count of -5.
\<close>

theorem stored_metrics_negative_counterexample:
  "fst (handleMetricsUpdate 5 sample_db 1 (sample_metrics 50 60 70 (- 1)) 1)
     = Inr (MetricsUpdated
              \<lparr>metric_serverId = JNum 1, metric_values = sample_metrics 50 60 70 (- 1),
               metric_timestamp = 5\<rparr> [] ''Metrics updated successfully'')
   \<and> map (\<lambda>row. ramUsage (metric_values row))
        (serverMetrics (snd (handleMetricsUpdate 5 sample_db 1 (sample_metrics 50 60 70 (- 1)) 1)))
       = [Some (JNum (- 1))]
   \<and> map_sum id (\<lambda>s. (m_cpuUsage s, m_ramUsage s, m_networkIn s, m_activeConnections s))
        (getMetrics (sample_remote ''-5'') sample_session)
       = Inr (Num (- 5), Num 0, Num (- 5), Num (- 5))"
proof -
  have a: "fst (handleMetricsUpdate 5 sample_db 1 (sample_metrics 50 60 70 (- 1)) 1)
     = Inr (MetricsUpdated
              \<lparr>metric_serverId = JNum 1, metric_values = sample_metrics 50 60 70 (- 1),
               metric_timestamp = 5\<rparr> [] ''Metrics updated successfully'')"
    by (simp add: handler_defs sample_defs)
  have b: "map (\<lambda>row. ramUsage (metric_values row))
        (serverMetrics (snd (handleMetricsUpdate 5 sample_db 1 (sample_metrics 50 60 70 (- 1)) 1)))
       = [Some (JNum (- 1))]"
    by (simp add: handler_defs sample_defs)
  from a b run_neg show ?thesis by simp
qed

subsection \<open>Alerts of a metrics update\<close>

lemma check_alerts_numeric:
  assumes "number_or_absent (cpuUsage m)" and "number_or_absent (ramUsagePercent m)"
    and "number_or_absent (diskUsagePercent m)"
  shows "\<exists>pending. check_alerts serverId m = Inr pending
           \<and> length pending
               = (if exceeds_90 (cpuUsage m) then 1 else 0)
                 + (if exceeds_90 (ramUsagePercent m) then 1 else 0)
                 + (if exceeds_90 (diskUsagePercent m) then 1 else 0)
           \<and> (\<forall>a \<in> set pending. pa_severity a = Critical \<and> pa_serverId a = serverId)
           \<and> ((\<exists>v. HighCpuUsage v \<in> pa_message ` set pending) \<longleftrightarrow> exceeds_90 (cpuUsage m))
           \<and> ((\<exists>v. HighMemoryUsage v \<in> pa_message ` set pending)
                 \<longleftrightarrow> exceeds_90 (ramUsagePercent m))
           \<and> ((\<exists>v. LowDiskSpace v \<in> pa_message ` set pending)
                 \<longleftrightarrow> exceeds_90 (diskUsagePercent m))"
proof -
  have num: "\<And>x. number_or_absent x \<Longrightarrow> x = None \<or> (\<exists>v. x = Some (JNum v))"
    by (auto simp: number_or_absent_def split: option.splits json.splits)
  have gt: "\<And>x. number_or_absent x \<Longrightarrow> js_gt x 90 = Inr (exceeds_90 x)"
    by (auto simp: js_gt_def to_number_def exceeds_90_def convertible_def reading_def
          dest!: num)
  have fixed: "\<And>x name. number_or_absent x \<Longrightarrow> exceeds_90 x
                 \<Longrightarrow> \<exists>v. toFixed_of name x = Inr v"
    by (auto simp: toFixed_of_def exceeds_90_def reading_def num_gt_def dest!: num)
  have conv: "\<And>x. number_or_absent x \<Longrightarrow> \<exists>n. to_number x = Inr n"
    by (auto simp: to_number_def dest!: num)
  obtain n where n: "to_number (diskUsagePercent m) = Inr n"
    using conv [OF assms(3)] by blast
  show ?thesis
  proof (cases "exceeds_90 (cpuUsage m)")
    case True
    then obtain v1 where v1: "toFixed_of ''cpuUsage'' (cpuUsage m) = Inr v1"
      using fixed [OF assms(1)] by blast
    show ?thesis
    proof (cases "exceeds_90 (ramUsagePercent m)")
      case r: True
      then obtain v2 where v2: "toFixed_of ''ramUsagePercent'' (ramUsagePercent m) = Inr v2"
        using fixed [OF assms(2)] by blast
      from True r v1 v2 n show ?thesis
        by (cases "exceeds_90 (diskUsagePercent m)")
           (simp_all add: check_alerts_def and_then_def gt [OF assms(1)] gt [OF assms(2)]
              gt [OF assms(3)])
    next
      case r: False
      from True r v1 n show ?thesis
        by (cases "exceeds_90 (diskUsagePercent m)")
           (simp_all add: check_alerts_def and_then_def gt [OF assms(1)] gt [OF assms(2)]
              gt [OF assms(3)])
    qed
  next
    case False
    show ?thesis
    proof (cases "exceeds_90 (ramUsagePercent m)")
      case r: True
      then obtain v2 where v2: "toFixed_of ''ramUsagePercent'' (ramUsagePercent m) = Inr v2"
        using fixed [OF assms(2)] by blast
      from False r v2 n show ?thesis
        by (cases "exceeds_90 (diskUsagePercent m)")
           (simp_all add: check_alerts_def and_then_def gt [OF assms(1)] gt [OF assms(2)]
              gt [OF assms(3)])
    next
      case r: False
      from False r n show ?thesis
        by (cases "exceeds_90 (diskUsagePercent m)")
           (simp_all add: check_alerts_def and_then_def gt [OF assms(1)] gt [OF assms(2)]
              gt [OF assms(3)])
    qed
  qed
qed

text \<open>
  The policy on the requests that the declared type of the handler describes. When the
  server exists, the caller owns it, each of the three percentages is a JSON number or
  absent and passes the validation, and the database accepts every row,
  \<open>handleMetricsUpdate\<close> succeeds and appends to the alerts exactly one critical alert
  for each of CPU, memory and disk whose percentage is strictly greater than 90, and
  nothing else.
\<close>

lemma update_metrics_alerts_numeric:
  assumes "getServerById d serverId = Some server" and "createdBy server = userId"
    and "number_or_absent (cpuUsage m)" and "number_or_absent (ramUsagePercent m)"
    and "number_or_absent (diskUsagePercent m)"
    and "percent_ok (cpuUsage m)" and "percent_ok (ramUsagePercent m)"
    and "percent_ok (diskUsagePercent m)"
    and "accepts_rows d"
  shows "\<exists>metric pending created.
           fst (handleMetricsUpdate now d serverId m userId)
             = Inr (MetricsUpdated metric pending ''Metrics updated successfully'')
           \<and> alerts (snd (handleMetricsUpdate now d serverId m userId)) = alerts d @ created
           \<and> map alert_message created = map pa_message pending
           \<and> length created
               = (if exceeds_90 (cpuUsage m) then 1 else 0)
                 + (if exceeds_90 (ramUsagePercent m) then 1 else 0)
                 + (if exceeds_90 (diskUsagePercent m) then 1 else 0)
           \<and> (\<forall>a \<in> set created. alert_severity a = Critical \<and> alert_serverId a = serverId
                  \<and> \<not> acknowledged a)
           \<and> ((\<exists>v. HighCpuUsage v \<in> alert_message ` set created) \<longleftrightarrow> exceeds_90 (cpuUsage m))
           \<and> ((\<exists>v. HighMemoryUsage v \<in> alert_message ` set created)
                 \<longleftrightarrow> exceeds_90 (ramUsagePercent m))
           \<and> ((\<exists>v. LowDiskSpace v \<in> alert_message ` set created)
                 \<longleftrightarrow> exceeds_90 (diskUsagePercent m))"
proof -
  from assms(6-8) have valid: "invalid_metrics m = Inr False"
    by (simp add: invalid_metrics_False)
  from check_alerts_numeric [OF assms(3-5), of serverId] obtain pending where
    p: "check_alerts serverId m = Inr pending"
    and len: "length pending
               = (if exceeds_90 (cpuUsage m) then 1 else 0)
                 + (if exceeds_90 (ramUsagePercent m) then 1 else 0)
                 + (if exceeds_90 (diskUsagePercent m) then 1 else 0)"
    and crit: "\<forall>a \<in> set pending. pa_severity a = Critical \<and> pa_serverId a = serverId"
    and kinds:
      "(\<exists>v. HighCpuUsage v \<in> pa_message ` set pending) \<longleftrightarrow> exceeds_90 (cpuUsage m)"
      "(\<exists>v. HighMemoryUsage v \<in> pa_message ` set pending) \<longleftrightarrow> exceeds_90 (ramUsagePercent m)"
      "(\<exists>v. LowDiskSpace v \<in> pa_message ` set pending) \<longleftrightarrow> exceeds_90 (diskUsagePercent m)"
    by blast
  let ?created = "map (alert_row now) pending"
  let ?d1 = "d\<lparr>serverMetrics := serverMetrics d @ [metric_row now serverId m]\<rparr>"
  let ?d2 = "?d1\<lparr>servers :=
               map (\<lambda>s. if real_of_int (server_id s) = serverId
                        then apply_updates \<lparr>upd_status = None, upd_lastSeen = Some now\<rparr> s
                        else s) (servers ?d1)\<rparr>"
  have acc: "\<And>d'. engine d' = engine d \<Longrightarrow>
               create_alerts now d' pending
                 = (Inr (), d'\<lparr>alerts := alerts d' @ map (alert_row now) pending\<rparr>)"
    using assms(9) by (simp add: create_alerts_accepted accepts_rows_def)
  from assms(9) have run:
    "handleMetricsUpdate now d serverId m userId
       = (Inr (MetricsUpdated (metric_row now serverId m) pending
                 ''Metrics updated successfully''),
          ?d2\<lparr>alerts := alerts ?d2 @ ?created\<rparr>)"
    by (simp add: handleMetricsUpdate_def assms(1,2) valid p createMetric_def attempt_def
          updateServer_def Let_def accepts_rows_def acc)
  have msgs: "alert_message ` set ?created = pa_message ` set pending"
    by (force simp: alert_row_def image_iff)
  have crit': "\<forall>a \<in> set ?created. alert_severity a = Critical \<and> alert_serverId a = serverId
                \<and> \<not> acknowledged a"
    using crit by (auto simp: alert_row_def)
  have maps: "map alert_message ?created = map pa_message pending"
    by (simp add: alert_row_def)
  have len': "length ?created
               = (if exceeds_90 (cpuUsage m) then 1 else 0)
                 + (if exceeds_90 (ramUsagePercent m) then 1 else 0)
                 + (if exceeds_90 (diskUsagePercent m) then 1 else 0)"
    using len by simp
  have kinds':
    "(\<exists>v. HighCpuUsage v \<in> alert_message ` set ?created) \<longleftrightarrow> exceeds_90 (cpuUsage m)"
    "(\<exists>v. HighMemoryUsage v \<in> alert_message ` set ?created) \<longleftrightarrow> exceeds_90 (ramUsagePercent m)"
    "(\<exists>v. LowDiskSpace v \<in> alert_message ` set ?created) \<longleftrightarrow> exceeds_90 (diskUsagePercent m)"
    by (simp_all only: msgs kinds)
  show ?thesis
  proof (intro exI conjI)
    show "fst (handleMetricsUpdate now d serverId m userId)
            = Inr (MetricsUpdated (metric_row now serverId m) pending
                     ''Metrics updated successfully'')"
      by (simp add: run)
    show "alerts (snd (handleMetricsUpdate now d serverId m userId)) = alerts d @ ?created"
      by (simp add: run)
  qed (use maps len' crit' kinds' in blast)+
qed

lemmas event_defs =
  handleEvent_def handleEvent_mutation_def catch_block_def parse_input_def field_def
  optional_def as_string_def as_number_def as_record_def data_of_def input_rejected_def
  authenticate_def getApiKeyByKey_def getUserById_def make_payload_def
  processWebhook_def falsy_id_def control_action_def handleServerStatusChange_def
  createWebhookLog_def empty_data_def failed_log_def success_log_def error_message_def

text \<open>
  Claim C2, at the failing input: a request whose CPU percentage is the string \<open>95\<close>, which the
  schema of the procedure lets through (\<open>data\<close> is a record of any values): the
  server exists, the caller owns it, the comparisons of the validation convert the string
  and pass, and the string is greater than 90. The handler stores the snapshot, refreshes
  \<open>lastSeen\<close>, and then throws a \<open>TypeError\<close> at \<open>toFixed\<close>, which a string does
  not have: no alert is created, and the dispatch through \<open>handleEvent\<close> fails with
  that error and a failed audit record. The same request with the number 95 creates the
  one alert when the database accepts the row, and none when the database rejects the
  row for its missing columns: the handler then throws after the snapshot is stored.
\<close>

theorem update_metrics_string_percentage_no_alert:
  "getServerById sample_db 1 = Some sample_server \<and> createdBy sample_server = 1
   \<and> invalid_metrics string_cpu_metrics = Inr False
   \<and> exceeds_90 (cpuUsage string_cpu_metrics)
   \<and> fst (handleMetricsUpdate 5 sample_db 1 string_cpu_metrics 1)
       = Inl (TypeError ''metrics.cpuUsage.toFixed is not a function'')
   \<and> serverMetrics (snd (handleMetricsUpdate 5 sample_db 1 string_cpu_metrics 1))
       = [\<lparr>metric_serverId = JNum 1, metric_values = string_cpu_metrics,
           metric_timestamp = 5\<rparr>]
   \<and> map lastSeen (servers (snd (handleMetricsUpdate 5 sample_db 1 string_cpu_metrics 1)))
       = [Some 5]
   \<and> alerts (snd (handleMetricsUpdate 5 sample_db 1 string_cpu_metrics 1)) = []
   \<and> fst (handleEvent 5 sample_db string_cpu_request)
       = Inl (TypeError ''metrics.cpuUsage.toFixed is not a function'')
   \<and> alerts (snd (handleEvent 5 sample_db string_cpu_request)) = []
   \<and> map metric_values (serverMetrics (snd (handleEvent 5 sample_db string_cpu_request)))
       = [string_cpu_metrics]
   \<and> map (\<lambda>e. (log_status e, log_response e))
        (webhookLogs (snd (handleEvent 5 sample_db string_cpu_request)))
       = [(Failed, ErrorJson ''metrics.cpuUsage.toFixed is not a function'')]
   \<and> map alert_message
        (alerts (snd (handleMetricsUpdate 5 sample_db 1 (sample_metrics 95 50 40 0) 1)))
       = [HighCpuUsage 95]
   \<and> fst (handleMetricsUpdate 5 strict_db 1 (sample_metrics 95 50 40 0) 1)
       = Inl (PlainError ''Field 'alertConfigId' doesn't have a default value'')
   \<and> alerts (snd (handleMetricsUpdate 5 strict_db 1 (sample_metrics 95 50 40 0) 1)) = []
   \<and> map metric_values
        (serverMetrics (snd (handleMetricsUpdate 5 strict_db 1 (sample_metrics 95 50 40 0) 1)))
       = [sample_metrics 95 50 40 0]"
proof -
  have owner: "getServerById sample_db 1 = Some sample_server \<and> createdBy sample_server = 1"
    by (simp add: getServerById_def sample_defs)
  have valid: "invalid_metrics string_cpu_metrics = Inr False"
    by (simp add: string_cpu_metrics_def handler_defs sample_defs js_parse_defs js_num_defs)
  have high: "exceeds_90 (cpuUsage string_cpu_metrics)"
    by (simp add: string_cpu_metrics_def reading_defs sample_defs js_parse_defs js_num_defs)
  have handler: "handleMetricsUpdate 5 sample_db 1 string_cpu_metrics 1
       = (Inl (TypeError ''metrics.cpuUsage.toFixed is not a function''),
          sample_db\<lparr>serverMetrics := [\<lparr>metric_serverId = JNum 1,
                                        metric_values = string_cpu_metrics,
                                        metric_timestamp = 5\<rparr>],
                    servers := [sample_server\<lparr>lastSeen := Some 5\<rparr>]\<rparr>)"
    by (simp add: string_cpu_metrics_def handler_defs sample_defs js_parse_defs js_num_defs)
  have parsed: "metric_fields (payload_data (make_payload 5
                   (the (parse_input string_cpu_request)))) = string_cpu_metrics"
    by (simp add: string_cpu_request_def string_cpu_metrics_def event_defs sample_defs)
  have event: "handleEvent 5 sample_db string_cpu_request
       = (Inl (TypeError ''metrics.cpuUsage.toFixed is not a function''),
          sample_db\<lparr>serverMetrics := [\<lparr>metric_serverId = JNum 1,
                                        metric_values = string_cpu_metrics,
                                        metric_timestamp = 5\<rparr>],
                    servers := [sample_server\<lparr>lastSeen := Some 5\<rparr>],
                    webhookLogs := [failed_log 5 (the (parse_input string_cpu_request))
                       (TypeError ''metrics.cpuUsage.toFixed is not a function'')]\<rparr>)"
    by (simp add: string_cpu_request_def string_cpu_metrics_def event_defs handler_defs
          sample_defs js_parse_defs js_num_defs)
  have numeric: "map alert_message
        (alerts (snd (handleMetricsUpdate 5 sample_db 1 (sample_metrics 95 50 40 0) 1)))
       = [HighCpuUsage 95]"
    by (simp add: handler_defs sample_defs)
  have strict: "handleMetricsUpdate 5 strict_db 1 (sample_metrics 95 50 40 0) 1
       = (Inl (PlainError ''Field 'alertConfigId' doesn't have a default value''),
          strict_db\<lparr>serverMetrics := [\<lparr>metric_serverId = JNum 1,
                                        metric_values = sample_metrics 95 50 40 0,
                                        metric_timestamp = 5\<rparr>],
                    servers := [sample_server\<lparr>lastSeen := Some 5\<rparr>]\<rparr>)"
    by (simp add: strict_db_def strict_engine_def handler_defs sample_defs)
  have logs: "map (\<lambda>e. (log_status e, log_response e))
        (webhookLogs (snd (handleEvent 5 sample_db string_cpu_request)))
       = [(Failed, ErrorJson ''metrics.cpuUsage.toFixed is not a function'')]"
    by (simp add: event failed_log_def error_message_def)
  have none: "alerts sample_db = []" "alerts strict_db = []"
    by (simp_all add: strict_db_def sample_defs)
  from owner valid high numeric logs none show ?thesis
    by (simp add: handler event strict)
qed

subsection \<open>The audit record of a dispatch\<close>












subsection \<open>Draining and removing pooled sessions\<close>

lemma disconnect_ok:
  assumes "connected (heap w r) \<longrightarrow> dispose r = None"
  shows "fst (disconnect dispose w r) = Inr ()"
    and "connections (snd (disconnect dispose w r)) = connections w"
    and "microtasks (snd (disconnect dispose w r)) = microtasks w"
    and "\<not> connected (heap (snd (disconnect dispose w r)) r)"
    and "q \<noteq> r \<Longrightarrow> heap (snd (disconnect dispose w r)) q = heap w q"
    and "connected (heap (snd (disconnect dispose w r)) q) \<Longrightarrow> connected (heap w q)"
    and "config (heap (snd (disconnect dispose w r)) q) = config (heap w q)"
  using assms by (auto simp: disconnect_def disconnect_begin_def split: if_splits)

lemma disconnect_fail:
  assumes "connected (heap w r)" "dispose r = Some e"
  shows "disconnect dispose w r = (Inl e, w)"
  using assms by (simp add: disconnect_def disconnect_begin_def)

lemma disconnect_each_ok:
  assumes "\<forall>r \<in> set rs. connected (heap w r) \<longrightarrow> dispose r = None"
  shows "fst (disconnect_each dispose w rs) = Inr ()
         \<and> connections (snd (disconnect_each dispose w rs)) = connections w
         \<and> microtasks (snd (disconnect_each dispose w rs)) = microtasks w
         \<and> (\<forall>r \<in> set rs. \<not> connected (heap (snd (disconnect_each dispose w rs)) r))
         \<and> (\<forall>q. q \<notin> set rs \<longrightarrow> heap (snd (disconnect_each dispose w rs)) q = heap w q)
         \<and> (\<forall>q. connected (heap (snd (disconnect_each dispose w rs)) q) \<longrightarrow> connected (heap w q))
         \<and> (\<forall>q. config (heap (snd (disconnect_each dispose w rs)) q) = config (heap w q))"
  using assms
proof (induction rs arbitrary: w)
  case Nil
  then show ?case by simp
next
  case (Cons r rs)
  let ?w1 = "snd (disconnect dispose w r)"
  from Cons.prems have r: "connected (heap w r) \<longrightarrow> dispose r = None" by simp
  note d = disconnect_ok [of w r dispose, OF r]
  have step: "disconnect_each dispose w (r # rs) = disconnect_each dispose ?w1 rs"
    using d(1) by (cases "disconnect dispose w r") (auto split: sum.splits)
  have pre: "\<forall>r' \<in> set rs. connected (heap ?w1 r') \<longrightarrow> dispose r' = None"
    using Cons.prems d(6) by auto
  note ih = Cons.IH [of ?w1, OF pre]
  show ?case
    unfolding step
  proof (intro conjI allI ballI impI)
    show "fst (disconnect_each dispose ?w1 rs) = Inr ()" using ih by simp
    show "connections (snd (disconnect_each dispose ?w1 rs)) = connections w"
      using ih d(2) by simp
    show "microtasks (snd (disconnect_each dispose ?w1 rs)) = microtasks w"
      using ih d(3) by simp
  next
    fix q assume "q \<in> set (r # rs)"
    show "\<not> connected (heap (snd (disconnect_each dispose ?w1 rs)) q)"
    proof (cases "q \<in> set rs")
      case True
      with ih show ?thesis by blast
    next
      case False
      with \<open>q \<in> set (r # rs)\<close> have "q = r" by simp
      with ih d(4) show ?thesis by blast
    qed
  next
    fix q assume "q \<notin> set (r # rs)"
    then have "q \<notin> set rs" "q \<noteq> r" by auto
    with ih d(5) show "heap (snd (disconnect_each dispose ?w1 rs)) q = heap w q" by simp
  next
    fix q assume "connected (heap (snd (disconnect_each dispose ?w1 rs)) q)"
    with ih have "connected (heap ?w1 q)" by blast
    then show "connected (heap w q)" by (rule d(6))
  next
    fix q show "config (heap (snd (disconnect_each dispose ?w1 rs)) q) = config (heap w q)"
      using ih d(7) by simp
  qed
qed

lemma disconnect_each_append:
  assumes "fst (disconnect_each dispose w pre) = Inr ()"
  shows "disconnect_each dispose w (pre @ post)
           = disconnect_each dispose (snd (disconnect_each dispose w pre)) post"
  using assms
proof (induction pre arbitrary: w)
  case Nil
  then show ?case by simp
next
  case (Cons r pre)
  then show ?case
    by (cases "disconnect dispose w r") (auto split: sum.splits)
qed

lemma disconnect_each_fail:
  assumes pre: "\<forall>p \<in> set pre. connected (heap w p) \<longrightarrow> dispose p = None"
    and r: "connected (heap w r)" and e: "dispose r = Some e"
  shows "fst (disconnect_each dispose w (pre @ r # post)) = Inl e
         \<and> connections (snd (disconnect_each dispose w (pre @ r # post))) = connections w
         \<and> (\<forall>q. q \<notin> set pre \<longrightarrow> heap (snd (disconnect_each dispose w (pre @ r # post))) q = heap w q)"
proof -
  let ?w1 = "snd (disconnect_each dispose w pre)"
  note ok = disconnect_each_ok [of pre w dispose, OF pre]
  from pre r e have "r \<notin> set pre" by auto
  with ok r have "connected (heap ?w1 r)" by simp
  then have f: "disconnect dispose ?w1 r = (Inl e, ?w1)" using e by (simp add: disconnect_fail)
  have "disconnect_each dispose w (pre @ r # post) = (Inl e, ?w1)"
    using ok f by (simp add: disconnect_each_append)
  with ok show ?thesis by simp
qed

lemma getConnection_empty: "connections w = [] \<Longrightarrow> getConnection w serverId = None"
  by (simp add: getConnection_def Map_get_def)

text \<open>
  Claim C8, as amended. \<open>disconnectAll\<close> disconnects the pooled sessions one after
  the other, in the order of the pool. When no disposal of a connected session fails it
  returns normally, the pool is empty (every lookup is absent) and every session that was
  pooled is disconnected. When a disposal fails, the loop stops there and the error is
  thrown to the caller: nothing is collected, the sessions that the loop has not reached
  are as they were, and the pool keeps all its entries.
\<close>

theorem disconnectAll_stops_at_first_failure:
  "((\<forall>r \<in> set (map snd (connections w)). connected (heap w r) \<longrightarrow> dispose r = None) \<longrightarrow>
      fst (disconnectAll dispose w) = Inr ()
      \<and> connections (snd (disconnectAll dispose w)) = []
      \<and> (\<forall>serverId. getConnection (snd (disconnectAll dispose w)) serverId = None)
      \<and> (\<forall>r \<in> set (map snd (connections w)).
            \<not> isConnected (heap (snd (disconnectAll dispose w)) r)))
   \<and> (\<forall>pre r post e.
         map snd (connections w) = pre @ r # post
         \<and> (\<forall>p \<in> set pre. connected (heap w p) \<longrightarrow> dispose p = None)
         \<and> connected (heap w r) \<and> dispose r = Some e \<longrightarrow>
         fst (disconnectAll dispose w) = Inl e
         \<and> connections (snd (disconnectAll dispose w)) = connections w
         \<and> (\<forall>q. q \<notin> set pre \<longrightarrow> heap (snd (disconnectAll dispose w)) q = heap w q))"
proof (rule conjI)
  show "(\<forall>r \<in> set (map snd (connections w)). connected (heap w r) \<longrightarrow> dispose r = None) \<longrightarrow>
      fst (disconnectAll dispose w) = Inr ()
      \<and> connections (snd (disconnectAll dispose w)) = []
      \<and> (\<forall>serverId. getConnection (snd (disconnectAll dispose w)) serverId = None)
      \<and> (\<forall>r \<in> set (map snd (connections w)).
            \<not> isConnected (heap (snd (disconnectAll dispose w)) r))"
  proof (rule impI)
    assume a: "\<forall>r \<in> set (map snd (connections w)). connected (heap w r) \<longrightarrow> dispose r = None"
    note ok = disconnect_each_ok [of "map snd (connections w)" w dispose, OF a]
    obtain w' where w': "disconnect_each dispose w (map snd (connections w)) = (Inr (), w')"
      using ok by (cases "disconnect_each dispose w (map snd (connections w))") auto
    then have all: "disconnectAll dispose w = (Inr (), w'\<lparr>connections := []\<rparr>)"
      by (simp add: disconnectAll_def)
    have c: "connections (snd (disconnectAll dispose w)) = []" by (simp add: all)
    have g: "\<forall>serverId. getConnection (snd (disconnectAll dispose w)) serverId = None"
      using getConnection_empty [OF c] by simp
    have h: "\<forall>r \<in> set (map snd (connections w)).
               \<not> isConnected (heap (snd (disconnectAll dispose w)) r)"
      using ok w' by (simp add: all isConnected_def)
    from c g h show "fst (disconnectAll dispose w) = Inr ()
      \<and> connections (snd (disconnectAll dispose w)) = []
      \<and> (\<forall>serverId. getConnection (snd (disconnectAll dispose w)) serverId = None)
      \<and> (\<forall>r \<in> set (map snd (connections w)).
            \<not> isConnected (heap (snd (disconnectAll dispose w)) r))"
      by (simp add: all)
  qed
  show "\<forall>pre r post e.
         map snd (connections w) = pre @ r # post
         \<and> (\<forall>p \<in> set pre. connected (heap w p) \<longrightarrow> dispose p = None)
         \<and> connected (heap w r) \<and> dispose r = Some e \<longrightarrow>
         fst (disconnectAll dispose w) = Inl e
         \<and> connections (snd (disconnectAll dispose w)) = connections w
         \<and> (\<forall>q. q \<notin> set pre \<longrightarrow> heap (snd (disconnectAll dispose w)) q = heap w q)"
  proof (intro allI impI)
    fix pre r post e
    assume b: "map snd (connections w) = pre @ r # post
           \<and> (\<forall>p \<in> set pre. connected (heap w p) \<longrightarrow> dispose p = None)
           \<and> connected (heap w r) \<and> dispose r = Some e"
    then have pre: "\<forall>p \<in> set pre. connected (heap w p) \<longrightarrow> dispose p = None"
      and r: "connected (heap w r)" and e: "dispose r = Some e"
      and split: "map snd (connections w) = pre @ r # post" by simp_all
    note f = disconnect_each_fail [of pre w dispose r e post, OF pre r e]
    obtain w' where w': "disconnect_each dispose w (map snd (connections w)) = (Inl e, w')"
      using f split by (cases "disconnect_each dispose w (map snd (connections w))") auto
    then have all: "disconnectAll dispose w = (Inl e, w')" by (simp add: disconnectAll_def)
    show "fst (disconnectAll dispose w) = Inl e
           \<and> connections (snd (disconnectAll dispose w)) = connections w
           \<and> (\<forall>q. q \<notin> set pre \<longrightarrow> heap (snd (disconnectAll dispose w)) q = heap w q)"
      using f w' split by (simp add: all)
  qed
qed

lemmas pool_defs =
  disconnectAll_def disconnect_def disconnect_begin_def getConnection_def Map_get_def
  Map_delete_def removeConnection_def run_microtasks_def isConnected_def sample_pool_def
  failing_at_def never_failing_def

theorem disconnectAll_stops_at_first_failure_witness:
  "fst (disconnectAll never_failing sample_pool) = Inr ()
   \<and> connections (snd (disconnectAll never_failing sample_pool)) = []
   \<and> \<not> isConnected (heap (snd (disconnectAll never_failing sample_pool)) 0)
   \<and> \<not> isConnected (heap (snd (disconnectAll never_failing sample_pool)) 1)
   \<and> fst (disconnectAll (failing_at 1) sample_pool) = Inl (Error ''socket closed'')
   \<and> connections (snd (disconnectAll (failing_at 1) sample_pool)) = [(1, 0), (2, 1)]
   \<and> \<not> isConnected (heap (snd (disconnectAll (failing_at 1) sample_pool)) 0)
   \<and> isConnected (heap (snd (disconnectAll (failing_at 1) sample_pool)) 1)"
proof -
  have a: "\<forall>r \<in> set (map snd (connections sample_pool)).
             connected (heap sample_pool r) \<longrightarrow> never_failing r = None"
    by (simp add: never_failing_def)
  have b: "map snd (connections sample_pool) = [0] @ 1 # []
           \<and> (\<forall>p \<in> set [0]. connected (heap sample_pool p) \<longrightarrow> failing_at 1 p = None)
           \<and> connected (heap sample_pool 1) \<and> failing_at 1 1 = Some (Error ''socket closed'')"
    by (simp add: sample_pool_def failing_at_def)
  have run: "\<not> isConnected (heap (snd (disconnectAll (failing_at 1) sample_pool)) 0)"
    "isConnected (heap (snd (disconnectAll (failing_at 1) sample_pool)) 1)"
    "connections sample_pool = [(1, 0), (2, 1)]"
    by (simp_all add: pool_defs)
  from disconnectAll_stops_at_first_failure [of sample_pool never_failing] a
  have ok: "fst (disconnectAll never_failing sample_pool) = Inr ()
      \<and> connections (snd (disconnectAll never_failing sample_pool)) = []
      \<and> (\<forall>r \<in> set (map snd (connections sample_pool)).
            \<not> isConnected (heap (snd (disconnectAll never_failing sample_pool)) r))"
    by blast
  from disconnectAll_stops_at_first_failure [of sample_pool "failing_at 1"] b
  have bad: "fst (disconnectAll (failing_at 1) sample_pool) = Inl (Error ''socket closed'')
         \<and> connections (snd (disconnectAll (failing_at 1) sample_pool)) = connections sample_pool"
    by blast
  from ok bad run show ?thesis by (simp add: sample_pool_def)
qed

text \<open>
  The claim as stated fails: when the disposal of the first of two pooled sessions fails,
  \<open>disconnectAll\<close> throws, the second session is never disconnected although its
  disposal would succeed, and the pool still holds both entries.
\<close>

theorem disconnectAll_abort_counterexample:
  "fst (disconnectAll (failing_at 0) sample_pool) = Inl (Error ''socket closed'')
   \<and> connections (snd (disconnectAll (failing_at 0) sample_pool)) = [(1, 0), (2, 1)]
   \<and> getConnection (snd (disconnectAll (failing_at 0) sample_pool)) 2 = Some 1
   \<and> isConnected (heap sample_pool 1)
   \<and> failing_at 0 1 = None
   \<and> isConnected (heap (snd (disconnectAll (failing_at 0) sample_pool)) 1)"
  by (simp add: pool_defs)

lemma Map_get_delete: "Map_get (Map_delete entries k) k = None"
  by (induction entries) (simp_all add: Map_get_def Map_delete_def)

lemma removeConnection_pending:
  assumes "getConnection w serverId = Some r" and "connected (heap w r)"
  shows "getConnection (removeConnection dispose w serverId) serverId = None"
    and "heap (removeConnection dispose w serverId) = heap w"
    and "microtasks (removeConnection dispose w serverId)
           = microtasks w @ [ResumeDisconnect r (dispose r)]"
  using assms
  by (simp_all add: removeConnection_def getConnection_def disconnect_begin_def Map_get_delete)

text \<open>
  Claim C9, at the failing input. The pool holds a connected session for server 1.
  \<open>removeConnection\<close> removes the entry, so that the lookup is absent, but it returns
  while the session still reports \<open>isConnected() = true\<close>: the assignment
  \<open>this.connected = false\<close> of the un-awaited \<open>disconnect()\<close> is still in the
  microtask queue. The session reports false only once that continuation has run, and
  never if the disposal fails.
\<close>

theorem removeConnection_leaves_session_connected:
  "getConnection sample_pool 1 = Some 0
   \<and> isConnected (heap sample_pool 0)
   \<and> getConnection (removeConnection never_failing sample_pool 1) 1 = None
   \<and> isConnected (heap (removeConnection never_failing sample_pool 1) 0)
   \<and> microtasks (removeConnection never_failing sample_pool 1) = [ResumeDisconnect 0 None]
   \<and> \<not> isConnected (heap (run_microtasks (removeConnection never_failing sample_pool 1)) 0)
   \<and> isConnected (heap (run_microtasks (removeConnection (failing_at 0) sample_pool 1)) 0)"
  by (simp add: pool_defs)

end
